theory Spec2Isabelle
  imports Main
begin

section \<open>Python strings\<close>

text \<open>
  A Python string whose code points are all below 256 is a \<open>string\<close>: the character
  with code \<open>n\<close> is the code point \<open>n\<close>. The methods below are the ones the agent
  container calls: \<open>lower\<close>, \<open>endswith\<close>, the substring test \<open>in\<close>, \<open>strip\<close> (with
  and without an argument), \<open>split\<close> with a separator and \<open>replace\<close>.
\<close>

text \<open>\<open>lower\<close> moves the letters A to Z and the letters from 0xC0 to 0xDE, the
  multiplication sign 0xD7 apart, 32 places up.\<close>

definition str_lower_char :: "char \<Rightarrow> char" where
  "str_lower_char c =
     (let n = (of_char c :: nat)
      in if (65 \<le> n \<and> n \<le> 90) \<or> (192 \<le> n \<and> n \<le> 222 \<and> n \<noteq> 215) then char_of (n + 32)
         else c)"

definition str_lower :: "string \<Rightarrow> string" where
  "str_lower s = map str_lower_char s"

fun str_startswith :: "string \<Rightarrow> string \<Rightarrow> bool" where
  "str_startswith s [] = True"
| "str_startswith [] (p # ps) = False"
| "str_startswith (c # cs) (p # ps) = (c = p \<and> str_startswith cs ps)"

definition str_endswith :: "string \<Rightarrow> string \<Rightarrow> bool" where
  "str_endswith s p = str_startswith (rev s) (rev p)"

text \<open>\<open>str_contains s p\<close> is Python's \<open>p in s\<close> on two strings.\<close>

fun str_contains :: "string \<Rightarrow> string \<Rightarrow> bool" where
  "str_contains [] p = (p = [])"
| "str_contains (c # cs) p = (str_startswith (c # cs) p \<or> str_contains cs p)"

text \<open>The characters for which \<open>str.isspace\<close> holds: tab, line feed, vertical tab,
  form feed, carriage return, the four separators 0x1C to 0x1F, the space, the next-line
  control 0x85 and the no-break space 0xA0.\<close>

definition is_whitespace :: "char \<Rightarrow> bool" where
  "is_whitespace c =
     (c \<in> set [CHR 0x09, CHR 0x0A, CHR 0x0B, CHR 0x0C, CHR 0x0D,
                CHR 0x1C, CHR 0x1D, CHR 0x1E, CHR 0x1F, CHR 0x20, CHR 0x85, CHR 0xA0])"

definition strip_where :: "(char \<Rightarrow> bool) \<Rightarrow> string \<Rightarrow> string" where
  "strip_where p s = rev (dropWhile p (rev (dropWhile p s)))"

definition str_strip :: "string \<Rightarrow> string" where
  "str_strip s = strip_where is_whitespace s"

definition str_strip_chars :: "string \<Rightarrow> string \<Rightarrow> string" where
  "str_strip_chars s chars = strip_where (\<lambda>c. c \<in> set chars) s"

fun str_split :: "string \<Rightarrow> char \<Rightarrow> string list" where
  "str_split [] sep = [[]]"
| "str_split (c # cs) sep =
     (if c = sep then [] # str_split cs sep
      else (case str_split cs sep of
              [] \<Rightarrow> [[c]]
            | w # ws \<Rightarrow> (c # w) # ws))"

text \<open>\<open>s.replace(old, new)\<close> for a non-empty \<open>old\<close>: every occurrence, scanning from the
  left, non-overlapping.\<close>

function str_replace :: "string \<Rightarrow> string \<Rightarrow> string \<Rightarrow> string" where
  "str_replace s old new =
     (if old = [] then s
      else if s = [] then []
      else if str_startswith s old then new @ str_replace (drop (length old) s) old new
      else hd s # str_replace (tl s) old new)"
  by pat_completeness auto
termination
  by (relation "measure (\<lambda>(s, old, new). length s)") auto

declare str_replace.simps [simp del]

text \<open>Truth value of an optional string: \<open>None\<close> and the empty string are false.\<close>

definition truthy :: "string option \<Rightarrow> bool" where
  "truthy v = (v \<noteq> None \<and> v \<noteq> Some [])"

text \<open>An optional string inside an f-string: \<open>None\<close> prints as \<open>None\<close>.\<close>

fun format_value :: "string option \<Rightarrow> string" where
  "format_value None = ''None''"
| "format_value (Some s) = s"

section \<open>Exceptions and the responses of a stage\<close>

text \<open>
  A raised exception is a value; every function that can raise returns \<open>error + 'a\<close>.
  \<open>ClientError\<close> stands for any exception of the AWS client library.
\<close>

datatype error =
    ValueError string
  | AttributeError string
  | KeyError string
  | TypeError string
  | ClientError string

text \<open>\<open>str(e)\<close>: the message of the exception.\<close>

fun str_of_error :: "error \<Rightarrow> string" where
  "str_of_error (ValueError m) = m"
| "str_of_error (AttributeError m) = m"
| "str_of_error (KeyError m) = m"
| "str_of_error (TypeError m) = m"
| "str_of_error (ClientError m) = m"

text \<open>
  A stage returns a dictionary that is either \<open>{"error": message}\<close> or the result of the
  stage; the handler of a stage wraps it in a response with a status code. The body of a
  response is the dictionary itself: its serialisation by \<open>json.dumps\<close> is left out.
\<close>

datatype 'a payload = Error_payload string | Payload 'a

record 'a stage_response =
  statusCode :: nat
  body :: "'a payload"

text \<open>Assignment to a key of a dictionary: a key that is present keeps its place.\<close>

fun dict_set :: "'k \<Rightarrow> 'v \<Rightarrow> ('k \<times> 'v) list \<Rightarrow> ('k \<times> 'v) list" where
  "dict_set k v [] = [(k, v)]"
| "dict_set k v ((k', v') # rest) =
     (if k = k' then (k, v) # rest else (k', v') # dict_set k v rest)"

section \<open>Repository structure analysis (\<open>repo_structure_function.py\<close>)\<close>

subsection \<open>File classification\<close>

definition is_config_file :: "string \<Rightarrow> bool" where
  "is_config_file path =
     (let config_extensions =
            [''.json'', ''.yaml'', ''.yml'', ''.xml'', ''.properties'', ''.ini'', ''.conf''];
          config_names = [''dockerfile'', ''makefile'', ''jenkinsfile'', ''buildspec'']
      in list_ex (\<lambda>ext. str_endswith (str_lower path) ext) config_extensions
         \<or> list_ex (\<lambda>name. str_contains (str_lower path) name) config_names)"

definition is_source_file :: "string \<Rightarrow> bool" where
  "is_source_file path =
     (let source_extensions =
            [''.py'', ''.js'', ''.java'', ''.cpp'', ''.c'', ''.go'', ''.rs'', ''.rb'',
             ''.php'', ''.cs'', ''.ts'']
      in list_ex (\<lambda>ext. str_endswith (str_lower path) ext) source_extensions)"

definition is_build_file :: "string \<Rightarrow> bool" where
  "is_build_file path =
     (let build_files =
            [''build.gradle'', ''pom.xml'', ''package.json'', ''requirements.txt'',
             ''setup.py'', ''cargo.toml'']
      in list_ex (\<lambda>bf. str_contains (str_lower path) bf) build_files)"

definition is_deployment_file :: "string \<Rightarrow> bool" where
  "is_deployment_file path =
     (let deployment_patterns =
            [''deploy'', ''k8s'', ''kubernetes'', ''helm'', ''terraform'', ''cloudformation'',
             ''docker'']
      in list_ex (\<lambda>pattern. str_contains (str_lower path) pattern) deployment_patterns)"

text \<open>The \<open>analysis\<close> entry of the dictionary that \<open>analyze_repository_structure\<close>
  returns: four list comprehensions over the flat file list.\<close>

record file_analysis =
  config_files :: "string list"
  source_files :: "string list"
  build_files :: "string list"
  deployment_files :: "string list"

definition analysis :: "string list \<Rightarrow> file_analysis" where
  "analysis file_paths =
     \<lparr> config_files = filter is_config_file file_paths,
       source_files = filter is_source_file file_paths,
       build_files = filter is_build_file file_paths,
       deployment_files = filter is_deployment_file file_paths \<rparr>"

subsection \<open>Repository URL parsing\<close>

text \<open>
  \<open>_parse_github_url\<close> is the same function in \<open>repo_structure_function.py\<close> and in
  \<open>solution_provider_function.py\<close>. The argument of the model is the path component
  that \<open>urlparse\<close> extracts from the URL (for \<open>https://github.com/owner/repo.git\<close> the
  string \<open>/owner/repo.git\<close>); the two \<open>None\<close> of the source are the two \<open>None\<close> here.
\<close>

definition parse_github_url :: "string \<Rightarrow> string option \<times> string option" where
  "parse_github_url path =
     (let path_parts = str_split (str_strip_chars path ''/'') (CHR ''/'')
      in if length path_parts \<ge> 2
         then (Some (path_parts ! 0), Some (str_replace (path_parts ! 1) ''.git'' ''''))
         else (None, None))"

subsection \<open>Analysing the repository\<close>

text \<open>
  The reply of the hosting service to the request of a tree is a dictionary, here with its
  keys \<open>sha\<close> and \<open>tree\<close>, each \<open>None\<close> when absent; the reply with neither is the empty
  dictionary. An item of the tree has the keys \<open>path\<close> and \<open>type\<close>.
\<close>

record tree_item =
  item_path :: string
  item_type :: string

record tree_data =
  sha :: "string option"
  tree :: "tree_item list option"

text \<open>\<open>tree_data.get("tree", [])\<close>.\<close>

definition tree_items :: "tree_data \<Rightarrow> tree_item list" where
  "tree_items tree_data = (case tree tree_data of None \<Rightarrow> [] | Some items \<Rightarrow> items)"

text \<open>
  The nested dictionary that \<open>_build_file_structure\<close> makes of the items: a file is the
  string \<open>file\<close>, a directory is a dictionary.
\<close>

datatype file_structure = File_marker | Directory "(string \<times> file_structure) list"

text \<open>The two exceptions of using the string \<open>file\<close> as a dictionary.\<close>

definition item_assignment_error :: error where
  "item_assignment_error =
     TypeError (CHR 0x27 # ''str'' @ CHR 0x27 # '' object does not support item assignment'')"

definition string_index_error :: error where
  "string_index_error =
     TypeError (''string indices must be integers, not '' @ CHR 0x27 # ''str'' @ [CHR 0x27])"

text \<open>
  The inner loop of \<open>_build_file_structure\<close> for the parts of one path, as a function of
  the dictionary at the current level. The last part is assigned. A part before the last is
  created when absent and entered. When the entered value is the string \<open>file\<close>, the next
  round raises: the assignment of the last part, the assignment of a part that is not a
  substring of \<open>file\<close>, or the indexing by a part that is one.
\<close>

fun insert_path ::
  "string list \<Rightarrow> bool \<Rightarrow> (string \<times> file_structure) list
     \<Rightarrow> error + (string \<times> file_structure) list" where
  "insert_path [] is_blob level = Inr level"
| "insert_path [part] is_blob level =
     Inr (dict_set part (if is_blob then File_marker else Directory []) level)"
| "insert_path (part # next_part # rest) is_blob level =
     (case (case map_of level part of None \<Rightarrow> Directory [] | Some entered \<Rightarrow> entered) of
        Directory inner \<Rightarrow>
          (case insert_path (next_part # rest) is_blob inner of
             Inl e \<Rightarrow> Inl e
           | Inr inner' \<Rightarrow> Inr (dict_set part (Directory inner') level))
      | File_marker \<Rightarrow>
          Inl (if rest = [] \<or> \<not> str_contains ''file'' next_part then item_assignment_error
               else string_index_error))"

fun build_file_structure_loop ::
  "tree_item list \<Rightarrow> (string \<times> file_structure) list
     \<Rightarrow> error + (string \<times> file_structure) list" where
  "build_file_structure_loop [] structure = Inr structure"
| "build_file_structure_loop (item # items) structure =
     (case insert_path (str_split (item_path item) (CHR ''/'')) (item_type item = ''blob'')
             structure of
        Inl e \<Rightarrow> Inl e
      | Inr structure' \<Rightarrow> build_file_structure_loop items structure')"

definition build_file_structure ::
  "tree_data \<Rightarrow> error + (string \<times> file_structure) list" where
  "build_file_structure tree_data = build_file_structure_loop (tree_items tree_data) []"

definition extract_file_paths :: "tree_data \<Rightarrow> string list" where
  "extract_file_paths tree_data =
     map item_path (filter (\<lambda>item. item_type item = ''blob'') (tree_items tree_data))"

text \<open>
  \<open>_analyze_dependencies\<close>: the content of every item whose path ends in the name of a
  manifest. The download \<open>_get_file_content\<close> of a path catches its exceptions and then
  returns a marker, so it is a function to a string.
\<close>

fun analyze_dependencies_loop ::
  "(string \<Rightarrow> string) \<Rightarrow> tree_item list \<Rightarrow> (string \<times> string) list \<Rightarrow> (string \<times> string) list" where
  "analyze_dependencies_loop content [] dependencies = dependencies"
| "analyze_dependencies_loop content (item # items) dependencies =
     analyze_dependencies_loop content items
       (if list_ex (\<lambda>cf. str_endswith (item_path item) cf)
             [''package.json'', ''requirements.txt'', ''pom.xml'', ''build.gradle'', ''Dockerfile'']
        then dict_set (item_path item) (content (item_path item)) dependencies
        else dependencies)"

definition analyze_dependencies ::
  "(string \<Rightarrow> string) \<Rightarrow> tree_data \<Rightarrow> (string \<times> string) list" where
  "analyze_dependencies content tree_data =
     analyze_dependencies_loop content (tree_items tree_data) []"

text \<open>
  An instance of \<open>RepoStructureFunction\<close> in its environment: the outcome of
  \<open>_get_github_credentials\<close> (the dictionary of the secret, or \<open>None\<close> after any
  failure), the path component that \<open>urlparse\<close> gives for a URL (or its exception), the
  outcome of \<open>_get_repo_tree\<close> for an owner, a repository, a branch and a token (the
  dictionary of the reply, or \<open>None\<close> after any failure), and the download of a file for
  an owner, a repository, a path and a token.
\<close>

type_synonym github_credentials = "(string \<times> string) list"

record repo_structure_function =
  get_github_credentials :: "github_credentials option"
  urlparse_path :: "string \<Rightarrow> error + string"
  get_repo_tree :: "string \<Rightarrow> string \<Rightarrow> string option \<Rightarrow> string option \<Rightarrow> tree_data option"
  get_file_content :: "string \<Rightarrow> string \<Rightarrow> string \<Rightarrow> string option \<Rightarrow> string"

text \<open>
  \<open>_parse_github_url\<close> on the value of \<open>credentials.get("repo_url")\<close>. For \<open>None\<close>,
  \<open>urlparse\<close> returns a path of bytes, and its \<open>strip\<close> raises.
\<close>

definition parse_repo_url ::
  "repo_structure_function \<Rightarrow> string option \<Rightarrow> error + string option \<times> string option" where
  "parse_repo_url self repo_url =
     (case repo_url of
        None \<Rightarrow>
          Inl (TypeError (''a bytes-like object is required, not '' @ CHR 0x27 # ''str''
                           @ [CHR 0x27]))
      | Some url \<Rightarrow>
          (case urlparse_path self url of
             Inl e \<Rightarrow> Inl e
           | Inr path \<Rightarrow> Inr (parse_github_url path)))"

record repo_analysis =
  rs_status :: string
  rs_repo_url :: "string option"
  rs_branch_name :: "string option"
  rs_file_structure :: "(string \<times> file_structure) list"
  rs_file_paths :: "string list"
  rs_dependencies :: "(string \<times> string) list"
  rs_total_files :: nat
  rs_analysis :: file_analysis

text \<open>
  The statements inside the \<open>try\<close> of \<open>analyze_repository_structure\<close>: the dictionary
  they return, or the exception that leaves them.
\<close>

definition repository_analysis_body ::
  "repo_structure_function \<Rightarrow> string option \<Rightarrow> error + repo_analysis payload" where
  "repository_analysis_body self branch_name =
     (case get_github_credentials self of
        None \<Rightarrow> Inr (Error_payload ''Failed to retrieve GitHub credentials'')
      | Some credentials \<Rightarrow>
          if credentials = [] then Inr (Error_payload ''Failed to retrieve GitHub credentials'')
          else
            (let repo_url = map_of credentials ''repo_url'';
                 access_token = map_of credentials ''access_token''
             in case parse_repo_url self repo_url of
                  Inl e \<Rightarrow> Inl e
                | Inr (owner, repo) \<Rightarrow>
                    if \<not> truthy owner \<or> \<not> truthy repo
                    then Inr (Error_payload ''Invalid GitHub URL format'')
                    else
                      (case get_repo_tree self (format_value owner) (format_value repo)
                              branch_name access_token of
                         None \<Rightarrow> Inr (Error_payload ''Failed to fetch repository tree'')
                       | Some tree_data \<Rightarrow>
                           if sha tree_data = None \<and> tree tree_data = None
                           then Inr (Error_payload ''Failed to fetch repository tree'')
                           else
                             (case build_file_structure tree_data of
                                Inl e \<Rightarrow> Inl e
                              | Inr file_structure \<Rightarrow>
                                  (let file_paths = extract_file_paths tree_data;
                                       dependencies =
                                         analyze_dependencies
                                           (\<lambda>path. get_file_content self (format_value owner)
                                                      (format_value repo) path access_token)
                                           tree_data
                                   in Inr (Payload
                                        \<lparr> rs_status = ''success'',
                                          rs_repo_url = repo_url,
                                          rs_branch_name = branch_name,
                                          rs_file_structure = file_structure,
                                          rs_file_paths = file_paths,
                                          rs_dependencies = dependencies,
                                          rs_total_files = length file_paths,
                                          rs_analysis = analysis file_paths \<rparr>))))))"

text \<open>\<open>analyze_repository_structure\<close>: the exception of the body becomes the error
  dictionary.\<close>

definition analyze_repository_structure ::
  "repo_structure_function \<Rightarrow> string option \<Rightarrow> repo_analysis payload" where
  "analyze_repository_structure self branch_name =
     (case repository_analysis_body self branch_name of
        Inl e \<Rightarrow> Error_payload (str_of_error e)
      | Inr result \<Rightarrow> result)"

text \<open>
  \<open>handle_repo_structure\<close>: the first argument is the outcome of constructing the
  \<open>RepoStructureFunction\<close>, which can raise; the second is the value under
  \<open>branch_name\<close> of the event.
\<close>

definition handle_repo_structure ::
  "error + repo_structure_function \<Rightarrow> string option \<Rightarrow> repo_analysis stage_response" where
  "handle_repo_structure constructed branch_name =
     (case constructed of
        Inl e \<Rightarrow>
          \<lparr> statusCode = 500,
            body = Error_payload
                     (''Repo structure function execution failed: '' @ str_of_error e) \<rparr>
      | Inr repo_structure_function \<Rightarrow>
          \<lparr> statusCode = 200,
            body = analyze_repository_structure repo_structure_function branch_name \<rparr>)"

section \<open>Log analysis (\<open>log_analysis_function.py\<close>)\<close>

subsection \<open>The failure event\<close>

text \<open>
  The fields of the pipeline failure notification that the agent reads, each \<open>None\<close> when
  the key is absent: \<open>event["time"]\<close>, and under \<open>event["detail"]\<close> the keys
  \<open>pipeline\<close>, \<open>execution-id\<close>, \<open>stage\<close>, \<open>action\<close>, \<open>action-name\<close>,
  \<open>type.provider\<close>, \<open>execution-result.error-code\<close> and
  \<open>execution-result.external-execution-summary\<close>. A missing \<open>detail\<close> is the event with
  every detail field \<open>None\<close>, as \<open>event.get("detail", {})\<close> makes it.
\<close>

record pipeline_event =
  time :: "string option"
  pipeline :: "string option"
  execution_id :: "string option"
  stage :: "string option"
  action :: "string option"
  action_name :: "string option"
  provider :: "string option"
  error_code :: "string option"
  external_execution_summary :: "string option"

subsection \<open>Log groups from the parameter store\<close>

datatype ssm_reply =
    Parameter string
  | ParameterNotFound
  | SsmRaises error

type_synonym ssm_client = "string \<Rightarrow> ssm_reply"

text \<open>
  The body of the loop over parameter paths: read the parameter, strip its value, append it
  when it is not empty. \<open>ParameterNotFound\<close> is raised again as a \<open>ValueError\<close>; any
  other exception propagates. The branch for the other providers runs the same body on its
  single path.
\<close>

fun read_log_group_params :: "ssm_client \<Rightarrow> string list \<Rightarrow> string list \<Rightarrow> error + string list" where
  "read_log_group_params ssm [] log_groups = Inr log_groups"
| "read_log_group_params ssm (param_path # rest) log_groups =
     (case ssm param_path of
        Parameter v \<Rightarrow>
          (let log_group = str_strip v
           in read_log_group_params ssm rest
                (if log_group \<noteq> [] then log_groups @ [log_group] else log_groups))
      | ParameterNotFound \<Rightarrow> Inl (ValueError (''SSM parameter not found: '' @ param_path))
      | SsmRaises e \<Rightarrow> Inl e)"

definition get_log_groups_from_ssm ::
  "ssm_client \<Rightarrow> string \<Rightarrow> pipeline_event \<Rightarrow> error + string list" where
  "get_log_groups_from_ssm ssm pipeline_name pipeline_event =
     (let stage_name = stage pipeline_event;
          action_name = action pipeline_event;
          provider = provider pipeline_event
      in if \<not> truthy stage_name \<or> \<not> truthy action_name \<or> \<not> truthy provider
         then Inl (ValueError
                (''Missing required information in pipeline event - stage: ''
                  @ format_value stage_name @ '', action: '' @ format_value action_name
                  @ '', provider: '' @ format_value provider))
         else
           (let prefix = ''/pipeline/'' @ pipeline_name @ ''/'' @ format_value stage_name
                           @ ''/'' @ format_value action_name @ ''/'';
                found =
                  (if provider = Some ''CodeBuild''
                   then read_log_group_params ssm
                          [prefix @ ''codebuild-event-log-group'',
                           prefix @ ''codebuild-native-log-group''] []
                   else read_log_group_params ssm
                          [prefix @ str_lower (format_value provider) @ ''-log-group''] [])
            in case found of
                 Inl e \<Rightarrow> Inl e
               | Inr log_groups \<Rightarrow>
                   if log_groups = []
                   then Inl (ValueError
                          (''No log groups found for '' @ format_value provider @ '' stage ''
                            @ format_value stage_name))
                   else Inr log_groups))"

subsection \<open>The log store\<close>

text \<open>
  The log store is an upstream that the code does not control. Its answer to a call may
  depend on every call made before: a client is a function from the calls made so far and
  the present call to a reply. The calls made so far are the state that the fetch functions
  pass along and return. \<open>GetLogEvents g s a b t\<close> is
  \<open>get_log_events(logGroupName=g, logStreamName=s, startTime=a, endTime=b)\<close>, with
  \<open>nextToken=t\<close> when \<open>t\<close> is given. \<open>LogStreams\<close> carries the stream names of
  \<open>response['logStreams']\<close>; \<open>LogEvents\<close> carries \<open>response['events']\<close> and
  \<open>response.get('nextForwardToken')\<close>. A reply of the wrong shape is the \<open>KeyError\<close>
  that the subscript raises.
\<close>

record log_event =
  event_timestamp :: int
  event_message :: string

datatype api_call =
    DescribeLogStreams string
  | GetLogEvents string string int int "string option"

datatype api_reply =
    LogStreams "string list"
  | LogEvents "log_event list" "string option"
  | Raises error

type_synonym logs_client = "api_call list \<Rightarrow> api_call \<Rightarrow> api_reply"

datatype log_type = Event | Native

record log_entry =
  log_group :: string
  timestamp :: int
  message :: string
  log_type :: log_type

definition entry :: "string \<Rightarrow> log_type \<Rightarrow> log_event \<Rightarrow> log_entry" where
  "entry g t e =
     \<lparr> log_group = g, timestamp = event_timestamp e, message = event_message e,
       log_type = t \<rparr>"

subsection \<open>The two pagination loops\<close>

text \<open>
  Each \<open>while True\<close> loop is a partial function: \<open>None\<close> is the loop that never
  reaches its \<open>break\<close>. The result is the list of entries, or the exception that left
  the loop, together with the calls made.
\<close>

partial_function (option) get_all_events_loop ::
  "logs_client \<Rightarrow> string \<Rightarrow> string \<Rightarrow> int \<Rightarrow> int \<Rightarrow> api_call list \<Rightarrow> string option
     \<Rightarrow> log_entry list \<Rightarrow> ((error + log_entry list) \<times> api_call list) option"
where
  "get_all_events_loop client g stream_name start_ms end_ms trace next_token events =
     (let call = GetLogEvents g stream_name start_ms end_ms
                   (if truthy next_token then next_token else None);
          trace' = trace @ [call]
      in case client trace call of
           LogEvents page token \<Rightarrow>
             (let events' = events @ map (entry g Event) page
              in if \<not> truthy token \<or> page = [] then Some (Inr events', trace')
                 else get_all_events_loop client g stream_name start_ms end_ms trace' token
                        events')
         | LogStreams _ \<Rightarrow> Some (Inl (KeyError ''events''), trace')
         | Raises e \<Rightarrow> Some (Inl e, trace'))"

declare get_all_events_loop.simps [code]

definition get_all_events_from_stream ::
  "logs_client \<Rightarrow> string \<Rightarrow> string \<Rightarrow> int \<Rightarrow> int \<Rightarrow> api_call list
     \<Rightarrow> ((error + log_entry list) \<times> api_call list) option" where
  "get_all_events_from_stream client g stream_name start_ms end_ms trace =
     get_all_events_loop client g stream_name start_ms end_ms trace None []"

partial_function (option) get_events_around_failure_loop ::
  "logs_client \<Rightarrow> string \<Rightarrow> string \<Rightarrow> int \<Rightarrow> int \<Rightarrow> api_call list \<Rightarrow> string option
     \<Rightarrow> log_entry list \<Rightarrow> ((error + log_entry list) \<times> api_call list) option"
where
  "get_events_around_failure_loop client g stream_name start_ms end_ms trace next_token events =
     (let call = GetLogEvents g stream_name start_ms end_ms
                   (if truthy next_token then next_token else None);
          trace' = trace @ [call]
      in case client trace call of
           LogEvents page token \<Rightarrow>
             (let events' = events @ map (entry g Native) page
              in if \<not> truthy token \<or> page = [] \<or> length events' > 100
                 then Some (Inr events', trace')
                 else get_events_around_failure_loop client g stream_name start_ms end_ms
                        trace' token events')
         | LogStreams _ \<Rightarrow> Some (Inl (KeyError ''events''), trace')
         | Raises e \<Rightarrow> Some (Inl e, trace'))"

declare get_events_around_failure_loop.simps [code]

definition get_events_around_failure ::
  "logs_client \<Rightarrow> string \<Rightarrow> string \<Rightarrow> int \<Rightarrow> int \<Rightarrow> api_call list
     \<Rightarrow> ((error + log_entry list) \<times> api_call list) option" where
  "get_events_around_failure client g stream_name start_ms end_ms trace =
     get_events_around_failure_loop client g stream_name start_ms end_ms trace None []"

subsection \<open>Fetching and assembling the bundle\<close>

text \<open>
  Instants are microseconds since the epoch, in UTC. The conversion of an instant to
  milliseconds, \<open>int(t.timestamp() * 1000)\<close>, is a floating-point computation: it is a
  parameter \<open>to_ms\<close> of the functions that use it, and nothing is assumed of it.
\<close>

type_synonym datetime = int

text \<open>
  The body of the loop over log groups in \<open>_fetch_logs_in_timeframe\<close>: the entries one
  group adds to \<open>all_logs\<close>. An exception inside the \<open>try\<close> is logged and the group adds
  nothing.
\<close>

definition is_event_log :: "string \<Rightarrow> bool" where
  "is_event_log g = list_ex (\<lambda>keyword. str_contains g keyword) [''-event-log-group'']"

definition fetch_log_group ::
  "logs_client \<Rightarrow> int \<Rightarrow> int \<Rightarrow> api_call list \<Rightarrow> string
     \<Rightarrow> (log_entry list \<times> api_call list) option" where
  "fetch_log_group client start_ms end_ms trace g =
     (let call = DescribeLogStreams g;
          trace' = trace @ [call]
      in case client trace call of
           LogStreams [] \<Rightarrow> Some ([], trace')
         | LogStreams (stream_name # _) \<Rightarrow>
             (if is_event_log g
              then (case get_all_events_from_stream client g stream_name start_ms end_ms trace' of
                      None \<Rightarrow> None
                    | Some (Inl e, trace'') \<Rightarrow> Some ([], trace'')
                    | Some (Inr events, trace'') \<Rightarrow> Some (events, trace''))
              else (let failure_window_start = end_ms - (30 * 60 * 1000)
                    in case get_events_around_failure client g stream_name
                              failure_window_start end_ms trace' of
                         None \<Rightarrow> None
                       | Some (Inl e, trace'') \<Rightarrow> Some ([], trace'')
                       | Some (Inr events, trace'') \<Rightarrow> Some (events, trace'')))
         | LogEvents _ _ \<Rightarrow> Some ([], trace')
         | Raises e \<Rightarrow> Some ([], trace'))"

fun fetch_log_groups ::
  "logs_client \<Rightarrow> int \<Rightarrow> int \<Rightarrow> api_call list \<Rightarrow> string list \<Rightarrow> log_entry list
     \<Rightarrow> (log_entry list \<times> api_call list) option" where
  "fetch_log_groups client start_ms end_ms trace [] all_logs = Some (all_logs, trace)"
| "fetch_log_groups client start_ms end_ms trace (g # gs) all_logs =
     (case fetch_log_group client start_ms end_ms trace g of
        None \<Rightarrow> None
      | Some (events, trace') \<Rightarrow>
          fetch_log_groups client start_ms end_ms trace' gs (all_logs @ events))"

text \<open>Decimal digits of a natural number, for the f-string of the summary.\<close>

fun str_of_nat :: "nat \<Rightarrow> string" where
  "str_of_nat n =
     (if n < 10 then [''0123456789'' ! n]
      else str_of_nat (n div 10) @ [''0123456789'' ! (n mod 10)])"

declare str_of_nat.simps [simp del]

record log_bundle =
  logs :: "log_entry list"
  total_events :: nat
  total_native :: nat
  log_summary :: string

text \<open>
  The end of \<open>_fetch_logs_in_timeframe\<close>, from the first sort on. Python's \<open>list.sort\<close>
  is stable, as \<open>sort_key\<close> is. \<open>native_logs[-50:]\<close> is the whole list when it has at
  most 50 entries and its last 50 otherwise, which is what \<open>drop\<close> by the truncating
  difference gives.
\<close>

definition build_bundle :: "log_entry list \<Rightarrow> log_bundle" where
  "build_bundle fetched =
     (let all_logs = sort_key timestamp fetched;
          event_logs = filter (\<lambda>log. log_type log = Event) all_logs;
          native_logs = filter (\<lambda>log. log_type log = Native) all_logs;
          final_logs = sort_key timestamp
                         (event_logs @ drop (length native_logs - 50) native_logs)
      in \<lparr> logs = final_logs,
           total_events = length event_logs,
           total_native = length native_logs,
           log_summary = ''Found '' @ str_of_nat (length event_logs) @ '' events and ''
                           @ str_of_nat (length native_logs) @ '' native logs'' \<rparr>)"

text \<open>\<open>now\<close> is the value of \<open>datetime.utcnow()\<close>, read when the window is absent.\<close>

definition fetch_logs_in_timeframe ::
  "logs_client \<Rightarrow> (datetime \<Rightarrow> int) \<Rightarrow> datetime \<Rightarrow> api_call list \<Rightarrow> string list
     \<Rightarrow> datetime option \<Rightarrow> datetime option \<Rightarrow> (log_bundle \<times> api_call list) option" where
  "fetch_logs_in_timeframe client to_ms now trace log_groups start_time end_time =
     (let (start_time', end_time') =
            (case (start_time, end_time) of
               (Some s, Some e) \<Rightarrow> (s, e)
             | _ \<Rightarrow> (now - 60 * 60 * 1000000, now));
          start_ms = to_ms start_time';
          end_ms = to_ms end_time'
      in case fetch_log_groups client start_ms end_ms trace log_groups [] of
           None \<Rightarrow> None
         | Some (all_logs, trace') \<Rightarrow> Some (build_bundle all_logs, trace'))"

subsection \<open>Analysing the logs of a failure\<close>

text \<open>The dictionary that \<open>_extract_error_info\<close> builds; a missing key reads as the empty
  string.\<close>

record error_info =
  ei_pipeline_name :: string
  ei_stage :: string
  ei_action :: string
  ei_timestamp :: string
  ei_error_code :: string
  ei_error_summary :: string

fun get_or_empty :: "string option \<Rightarrow> string" where
  "get_or_empty None = []"
| "get_or_empty (Some s) = s"

definition extract_error_info :: "pipeline_event \<Rightarrow> error_info" where
  "extract_error_info event =
     \<lparr> ei_pipeline_name = get_or_empty (pipeline event),
       ei_stage = get_or_empty (stage event),
       ei_action = get_or_empty (action_name event),
       ei_timestamp = get_or_empty (time event),
       ei_error_code = get_or_empty (error_code event),
       ei_error_summary = get_or_empty (external_execution_summary event) \<rparr>"

text \<open>
  An instance of \<open>LogAnalysisFunction\<close> in its environment: its clients of the log store
  and of the parameter store, the outcome of \<open>_get_pipeline_execution_timeframe\<close> (a
  query of the pipeline registry that catches every exception and then returns no window),
  the clock and the conversion of an instant to milliseconds.
\<close>

record log_analysis_function =
  logs_service :: logs_client
  ssm_service :: ssm_client
  pipeline_execution_timeframe :: "pipeline_event \<Rightarrow> datetime option \<times> datetime option"
  utcnow :: datetime
  timestamp_ms :: "datetime \<Rightarrow> int"

record log_analysis =
  analysis_status :: string
  log_streams :: log_bundle
  execution_timeframe :: "datetime option \<times> datetime option"
  log_groups_list :: "string list"
  failed_stage :: "string option"
  failed_action :: "string option"

text \<open>\<open>analyze_logs\<close>: any exception of the body becomes the error dictionary. \<open>None\<close> is
  the run that never returns.\<close>

definition analyze_logs ::
  "log_analysis_function \<Rightarrow> error_info \<Rightarrow> pipeline_event \<Rightarrow> log_analysis payload option" where
  "analyze_logs self error_info pipeline_event =
     (let (start_time, end_time) = pipeline_execution_timeframe self pipeline_event
      in case get_log_groups_from_ssm (ssm_service self) (ei_pipeline_name error_info)
                pipeline_event of
           Inl e \<Rightarrow> Some (Error_payload (str_of_error e))
         | Inr groups \<Rightarrow>
             (case fetch_logs_in_timeframe (logs_service self) (timestamp_ms self) (utcnow self) []
                      groups
                      start_time end_time of
                None \<Rightarrow> None
              | Some (bundle, trace) \<Rightarrow>
                  Some (Payload
                    \<lparr> analysis_status = ''success'',
                      log_streams = bundle,
                      execution_timeframe = (start_time, end_time),
                      log_groups_list = groups,
                      failed_stage = stage pipeline_event,
                      failed_action = action_name pipeline_event \<rparr>)))"

text \<open>\<open>handle_log_analysis\<close>: the first argument is the outcome of constructing the
  \<open>LogAnalysisFunction\<close>, which can raise.\<close>

definition handle_log_analysis ::
  "error + log_analysis_function \<Rightarrow> error_info \<Rightarrow> pipeline_event
     \<Rightarrow> log_analysis stage_response option" where
  "handle_log_analysis constructed error_info pipeline_event =
     (case constructed of
        Inl e \<Rightarrow>
          Some \<lparr> statusCode = 500,
                 body = Error_payload
                          (''Log analysis function execution failed: '' @ str_of_error e) \<rparr>
      | Inr log_function \<Rightarrow>
          (case analyze_logs log_function error_info pipeline_event of
             None \<Rightarrow> None
           | Some result \<Rightarrow> Some \<lparr> statusCode = 200, body = result \<rparr>))"

section \<open>The suspect file (\<open>solution_provider_function.py\<close>)\<close>

text \<open>
  The two arguments of \<open>_identify_problematic_file\<close> are dictionaries of any shape, so
  they are values of a type of JSON data; a Python dictionary is a list of keys and values.
\<close>

datatype json =
    JNull
  | JBool bool
  | JInt int
  | JStr string
  | JList "json list"
  | JObj "(string \<times> json) list"

text \<open>\<open>d.get(key, default)\<close>: only a dictionary has the method.\<close>

definition dict_get :: "json \<Rightarrow> string \<Rightarrow> json \<Rightarrow> error + json" where
  "dict_get d key fallback =
     (case d of
        JObj items \<Rightarrow> Inr (case map_of items key of Some v \<Rightarrow> v | None \<Rightarrow> fallback)
      | _ \<Rightarrow> Inl (AttributeError ''object has no attribute get''))"

text \<open>
  The unwrapping that the function applies to each argument: when the value under
  \<open>body\<close> is a string it is parsed by \<open>json.loads\<close> (a parameter, which can raise),
  otherwise the argument itself is the data.
\<close>

definition unwrap_body :: "(string \<Rightarrow> error + json) \<Rightarrow> json \<Rightarrow> error + json" where
  "unwrap_body json_loads d =
     (case dict_get d ''body'' JNull of
        Inl e \<Rightarrow> Inl e
      | Inr (JStr encoded) \<Rightarrow> json_loads encoded
      | Inr _ \<Rightarrow> Inr d)"

text \<open>\<open>x in c\<close> for a string \<open>x\<close>: membership in a list, substring of a string, key of a
  dictionary; any other container raises.\<close>

fun py_in :: "string \<Rightarrow> json \<Rightarrow> error + bool" where
  "py_in x (JList xs) = Inr (JStr x \<in> set xs)"
| "py_in x (JStr s) = Inr (str_contains s x)"
| "py_in x (JObj items) = Inr (x \<in> fst ` set items)"
| "py_in x JNull = Inl (TypeError ''argument of type NoneType is not iterable'')"
| "py_in x (JBool b) = Inl (TypeError ''argument of type bool is not iterable'')"
| "py_in x (JInt i) = Inl (TypeError ''argument of type int is not iterable'')"

text \<open>\<open>response.strip().strip('"')\<close>.\<close>

definition clean_response :: "string \<Rightarrow> string" where
  "clean_response response = str_strip_chars (str_strip response) [CHR 0x22]"

text \<open>
  \<open>_identify_problematic_file\<close>. The prompt is built from the error data and the list of
  available files, so the answer of the model is a function \<open>invoke_bedrock_simple\<close> of the
  two. Every exception of the body is caught and gives \<open>None\<close>.
\<close>

definition identify_problematic_file ::
  "(string \<Rightarrow> error + json) \<Rightarrow> (json \<Rightarrow> json \<Rightarrow> string) \<Rightarrow> json \<Rightarrow> json \<Rightarrow> string option" where
  "identify_problematic_file json_loads invoke_bedrock_simple error_context repo_structure =
     (case unwrap_body json_loads error_context of
        Inl e \<Rightarrow> None
      | Inr error_data \<Rightarrow>
          (case unwrap_body json_loads repo_structure of
             Inl e \<Rightarrow> None
           | Inr repo_data \<Rightarrow>
               (case dict_get repo_data ''file_paths'' (JList []) of
                  Inl e \<Rightarrow> None
                | Inr available_files \<Rightarrow>
                    (let response = invoke_bedrock_simple error_data available_files;
                         filename = clean_response response
                     in if filename = ''NONE'' then None
                        else (case py_in filename available_files of
                                Inl e \<Rightarrow> None
                              | Inr found \<Rightarrow> if \<not> found then None else Some filename)))))"

subsection \<open>Generating the solution\<close>

text \<open>
  An instance of \<open>SolutionProviderAgent\<close> in its environment: the parser \<open>json.loads\<close>,
  the two calls of the language model (each for the data its prompt is built from, and each
  able to raise), and \<open>_fetch_file_content\<close>. The latter catches its exceptions; what it
  returns is a string, or the value of any type that the hosting service sent under the key
  \<open>content\<close>.
\<close>

record solution_provider_agent =
  loads :: "string \<Rightarrow> error + json"
  invoke_model_simple :: "json \<Rightarrow> json \<Rightarrow> error + string"
  invoke_model :: "json \<Rightarrow> json \<Rightarrow> string option \<Rightarrow> json \<Rightarrow> error + string"
  fetch_file_content :: "string \<Rightarrow> json \<Rightarrow> json"

text \<open>\<open>_invoke_bedrock_simple\<close> and \<open>_invoke_bedrock\<close>: an exception of the call becomes
  a string.\<close>

definition invoke_bedrock_simple :: "solution_provider_agent \<Rightarrow> json \<Rightarrow> json \<Rightarrow> string" where
  "invoke_bedrock_simple self error_data available_files =
     (case invoke_model_simple self error_data available_files of
        Inl e \<Rightarrow> ''Error''
      | Inr answer \<Rightarrow> answer)"

definition invoke_bedrock ::
  "solution_provider_agent \<Rightarrow> json \<Rightarrow> json \<Rightarrow> string option \<Rightarrow> json \<Rightarrow> string" where
  "invoke_bedrock self repo_structure error_context problematic_file file_content =
     (case invoke_model self repo_structure error_context problematic_file file_content of
        Inl e \<Rightarrow> ''Error generating response: '' @ str_of_error e
      | Inr answer \<Rightarrow> answer)"

text \<open>\<open>len(x)\<close>: the length of a string, a list or a dictionary; any other value raises.\<close>

fun py_len :: "json \<Rightarrow> error + nat" where
  "py_len (JStr s) = Inr (length s)"
| "py_len (JList xs) = Inr (length xs)"
| "py_len (JObj items) = Inr (length items)"
| "py_len JNull = Inl (TypeError ''object of type NoneType has no len()'')"
| "py_len (JBool b) = Inl (TypeError ''object of type bool has no len()'')"
| "py_len (JInt i) = Inl (TypeError ''object of type int has no len()'')"

text \<open>
  \<open>_generate_solution\<close>. The content of the file starts as the empty string and is
  fetched when a file was identified; its length is then taken for the log, which raises on
  a value without a length. That exception is the only one of the body: it is caught and
  gives the error dictionary, of which the key \<open>error\<close> is kept here (its keys
  \<open>details\<close>, \<open>problematic_file\<close> and \<open>solution\<close> are left out). Otherwise the result
  is the string of \<open>_generate_comprehensive_solution\<close>, that is of \<open>_invoke_bedrock\<close>.
\<close>

definition generate_solution :: "solution_provider_agent \<Rightarrow> json \<Rightarrow> json \<Rightarrow> string payload" where
  "generate_solution self repo_structure error_context =
     (let problematic_file =
            identify_problematic_file (loads self) (invoke_bedrock_simple self)
              error_context repo_structure
      in if truthy problematic_file
         then
           (let file_content =
                  fetch_file_content self (format_value problematic_file) repo_structure
            in case py_len file_content of
                 Inl e \<Rightarrow> Error_payload ''Failed to generate solution''
               | Inr n \<Rightarrow>
                   Payload (invoke_bedrock self repo_structure error_context problematic_file
                              file_content))
         else Payload (invoke_bedrock self repo_structure error_context problematic_file
                         (JStr [])))"

text \<open>\<open>handle_solution_provider\<close>: the first argument is the outcome of constructing the
  agent, which can raise.\<close>

definition handle_solution_provider ::
  "error + solution_provider_agent \<Rightarrow> json \<Rightarrow> json \<Rightarrow> string stage_response" where
  "handle_solution_provider constructed repo_structure error_context =
     (case constructed of
        Inl e \<Rightarrow>
          \<lparr> statusCode = 500,
            body = Error_payload
                     (''Solution provider function execution failed: '' @ str_of_error e) \<rparr>
      | Inr agent \<Rightarrow>
          \<lparr> statusCode = 200, body = generate_solution agent repo_structure error_context \<rparr>)"

section \<open>The supervisor (\<open>supervisor_function.py\<close>)\<close>

text \<open>
  The final response is a dictionary with the keys \<open>status\<close>, \<open>pipeline_info\<close> (a name
  and a stage) and \<open>solution_recommendations\<close>, or with the keys \<open>status\<close> and
  \<open>message\<close>; an absent key is \<open>None\<close>.
\<close>

record 'a orchestrator_response =
  status :: string
  pipeline_info :: "(string \<times> string) option"
  solution_recommendations :: "'a option"
  response_message :: "string option"

definition aggregate_response :: "error_info \<Rightarrow> 'a \<Rightarrow> 'a orchestrator_response" where
  "aggregate_response error_info solution =
     \<lparr> status = ''success'',
       pipeline_info = Some (ei_pipeline_name error_info, ei_stage error_info),
       solution_recommendations = Some solution,
       response_message = None \<rparr>"

definition error_response :: "error \<Rightarrow> 'a orchestrator_response" where
  "error_response e =
     \<lparr> status = ''error'', pipeline_info = None, solution_recommendations = None,
       response_message = Some (str_of_error e) \<rparr>"

text \<open>
  The response of a stage as the JSON data that the next stage reads: its status code and
  its body, the body a string made by \<open>json.dumps\<close>, which is a parameter.
\<close>

definition response_json :: "('a payload \<Rightarrow> string) \<Rightarrow> 'a stage_response \<Rightarrow> json" where
  "response_json dumps response =
     JObj [(''statusCode'', JInt (int (statusCode response))),
           (''body'', JStr (dumps (body response)))]"

text \<open>
  What surrounds a run of the orchestrator: the outcome of \<open>get_pipeline_source_branch\<close>
  (which creates its client before its \<open>try\<close>, so it can raise), the outcomes of
  constructing the three stage objects, and \<open>json.dumps\<close> on the two dictionaries that
  the solution stage reads.
\<close>

record agent_runtime =
  get_pipeline_source_branch :: "pipeline_event option \<Rightarrow> error + string option"
  new_repo_structure_function :: "error + repo_structure_function"
  new_log_analysis_function :: "error + log_analysis_function"
  new_solution_provider_agent :: "error + solution_provider_agent"
  dumps_repo_structure :: "repo_analysis payload \<Rightarrow> string"
  dumps_log_analysis :: "log_analysis payload \<Rightarrow> string"

text \<open>
  \<open>orchestrate_analysis\<close>. The argument \<open>pipeline_event\<close> is \<open>payload.get("event")\<close>.
  An exception anywhere in the body is caught at the end and becomes the error response:
  the branch lookup can raise, and \<open>_extract_error_info\<close> raises when there is no event.
  The three handlers raise only if \<open>json.dumps\<close> fails on the event they log before their
  \<open>try\<close>, and the events here are made of JSON data. \<open>None\<close> is the run in which the
  log stage never returns.
\<close>

definition orchestrate_analysis ::
  "agent_runtime \<Rightarrow> pipeline_event option \<Rightarrow> string stage_response orchestrator_response option" where
  "orchestrate_analysis runtime pipeline_event =
     (case get_pipeline_source_branch runtime pipeline_event of
        Inl e \<Rightarrow> Some (error_response e)
      | Inr branch_name \<Rightarrow>
          (case pipeline_event of
             None \<Rightarrow>
               Some (error_response
                 (AttributeError ''NoneType object has no attribute get''))
           | Some event \<Rightarrow>
               (let error_info = extract_error_info event;
                    repo_structure =
                      handle_repo_structure (new_repo_structure_function runtime) branch_name
                in case handle_log_analysis (new_log_analysis_function runtime) error_info
                          event of
                     None \<Rightarrow> None
                   | Some analyzed_logs \<Rightarrow>
                       (let solution =
                              handle_solution_provider (new_solution_provider_agent runtime)
                                (response_json (dumps_repo_structure runtime) repo_structure)
                                (response_json (dumps_log_analysis runtime) analyzed_logs)
                        in Some (aggregate_response error_info solution)))))"

section \<open>Auxiliary notions and concrete inputs\<close>

text \<open>
  A reply ends a pagination loop of the event kind when it is an exception, a page without
  a next token, or an empty page.
\<close>

definition ends_pagination :: "api_reply \<Rightarrow> bool" where
  "ends_pagination reply =
     (case reply of
        LogEvents page token \<Rightarrow> \<not> truthy token \<or> page = []
      | LogStreams _ \<Rightarrow> True
      | Raises _ \<Rightarrow> True)"

text \<open>
  The replies that a run of the loop of the event kind receives. A run starts with the
  calls \<open>trace\<close> made before it and the token \<open>tok\<close>; \<open>event_loop_reply\<close> at \<open>k\<close> is the
  reply to its call number \<open>k + 1\<close>, or the reply that ended the run before that call.
\<close>

fun event_loop_reply ::
  "logs_client \<Rightarrow> string \<Rightarrow> string \<Rightarrow> int \<Rightarrow> int \<Rightarrow> nat \<Rightarrow> api_call list \<Rightarrow> string option
     \<Rightarrow> api_reply" where
  "event_loop_reply client g s a b 0 trace tok =
     client trace (GetLogEvents g s a b (if truthy tok then tok else None))"
| "event_loop_reply client g s a b (Suc k) trace tok =
     (let call = GetLogEvents g s a b (if truthy tok then tok else None)
      in case client trace call of
           LogEvents page token \<Rightarrow>
             if \<not> truthy token \<or> page = [] then LogEvents page token
             else event_loop_reply client g s a b k (trace @ [call]) token
         | LogStreams streams \<Rightarrow> LogStreams streams
         | Raises e \<Rightarrow> Raises e)"

text \<open>A store of three pages, each found by the token of the page before.\<close>

definition three_page_store :: logs_client where
  "three_page_store trace call =
     (case call of
        DescribeLogStreams g \<Rightarrow> LogStreams [''stream'']
      | GetLogEvents g s a b t \<Rightarrow>
          if t = None
          then LogEvents [\<lparr> event_timestamp = 1, event_message = ''started'' \<rparr>] (Some ''page-2'')
          else if t = Some ''page-2''
          then LogEvents [\<lparr> event_timestamp = 2, event_message = ''running'' \<rparr>] (Some ''page-3'')
          else LogEvents [\<lparr> event_timestamp = 3, event_message = ''failed'' \<rparr>] None)"

text \<open>A store that answers every call with one event and a fresh token.\<close>

definition endless_store :: logs_client where
  "endless_store trace call =
     LogEvents [\<lparr> event_timestamp = 1, event_message = ''started'' \<rparr>] (Some ''next'')"

text \<open>A store whose single page holds 101 events.\<close>

definition big_page_store :: logs_client where
  "big_page_store trace call =
     LogEvents (replicate 101 \<lparr> event_timestamp = 1, event_message = ''line'' \<rparr>) None"

text \<open>A store whose pages hold 60 events each and always announce a further page.\<close>

definition sixty_page_store :: logs_client where
  "sixty_page_store trace call =
     LogEvents (replicate 60 \<lparr> event_timestamp = 1, event_message = ''line'' \<rparr>) (Some ''more'')"

text \<open>
  On an instant of whole seconds the floating-point product is exact, and the conversion is
  the division by 1000. The examples use instants of whole seconds only.
\<close>

definition whole_second_ms :: "datetime \<Rightarrow> int" where
  "whole_second_ms t = t div 1000"

text \<open>
  A store with one stream per group, holding one event at the instant 5 whose message is
  the name of the group.
\<close>

definition single_event_store :: logs_client where
  "single_event_store trace call =
     (case call of
        DescribeLogStreams g \<Rightarrow> LogStreams [''stream'']
      | GetLogEvents g s a b t \<Rightarrow> LogEvents [\<lparr> event_timestamp = 5, event_message = g \<rparr>] None)"

text \<open>
  A failure of the action \<open>Compile\<close> in the stage \<open>Build\<close> of the pipeline \<open>demo\<close>,
  run by CodeBuild, and a failure of the action \<open>Fetch\<close> in its stage \<open>Source\<close>, run
  by S3.
\<close>

definition codebuild_failure :: pipeline_event where
  "codebuild_failure =
     \<lparr> time = Some ''2025-01-01T00:00:00Z'', pipeline = Some ''demo'',
       execution_id = Some ''exec-1'', stage = Some ''Build'', action = Some ''Compile'',
       action_name = None, provider = Some ''CodeBuild'', error_code = None,
       external_execution_summary = Some ''Build terminated with state: FAILED'' \<rparr>"

definition s3_failure :: pipeline_event where
  "s3_failure =
     \<lparr> time = Some ''2025-01-01T00:00:00Z'', pipeline = Some ''demo'',
       execution_id = Some ''exec-2'', stage = Some ''Source'', action = Some ''Fetch'',
       action_name = None, provider = Some ''S3'', error_code = None,
       external_execution_summary = None \<rparr>"

text \<open>A parameter store that holds the three parameters of these two failures.\<close>

definition demo_ssm :: ssm_client where
  "demo_ssm name =
     (if name = ''/pipeline/demo/Build/Compile/codebuild-event-log-group''
      then Parameter ''demo-event-log-group''
      else if name = ''/pipeline/demo/Build/Compile/codebuild-native-log-group''
      then Parameter '' /aws/codebuild/demo ''
      else if name = ''/pipeline/demo/Source/Fetch/s3-log-group''
      then Parameter ''demo-s3-event-log-group''
      else ParameterNotFound)"

text \<open>A parameter store in which both CodeBuild parameters exist and the native one holds
  a single space.\<close>

definition blank_native_ssm :: ssm_client where
  "blank_native_ssm name =
     (if name = ''/pipeline/demo/Build/Compile/codebuild-event-log-group''
      then Parameter ''demo-event-log-group''
      else if name = ''/pipeline/demo/Build/Compile/codebuild-native-log-group''
      then Parameter '' ''
      else ParameterNotFound)"

text \<open>
  A log analysis whose parameter store lacks the parameter of the S3 failure.
\<close>

definition demo_log_function :: log_analysis_function where
  "demo_log_function =
     \<lparr> logs_service = single_event_store, ssm_service = blank_native_ssm,
       pipeline_execution_timeframe = (\<lambda>event. (None, None)), utcnow = 0,
       timestamp_ms = whole_second_ms \<rparr>"

text \<open>A string between double quotes, and \<open>json.dumps\<close> with an indentation of 2 on
  the dictionary \<open>{"error": message}\<close> of a message without special characters.\<close>

definition quoted :: "string \<Rightarrow> string" where
  "quoted s = CHR 0x22 # s @ [CHR 0x22]"

definition dumps_error :: "string \<Rightarrow> string" where
  "dumps_error m =
     ''{'' @ [CHR 0x0A] @ ''  '' @ quoted ''error'' @ '': '' @ quoted m @ [CHR 0x0A] @ ''}''"

text \<open>
  Wrapped stage responses whose bodies are the JSON texts
  \<open>{"file_paths": ["buildspec.yml", "src/app.py"]}\<close> and \<open>{"error": ...}\<close>, a parser
  that knows these bodies, a model that answers with a listed file between quotes and a
  line feed, and a model that invents a file.
\<close>

definition demo_repo_body :: string where
  "demo_repo_body =
     ''{'' @ quoted ''file_paths'' @ '': ['' @ quoted ''buildspec.yml'' @ '', ''
       @ quoted ''src/app.py'' @ '']}''"

definition demo_repo_structure :: json where
  "demo_repo_structure =
     JObj [(''statusCode'', JInt 200), (''body'', JStr demo_repo_body)]"

definition demo_error_context :: json where
  "demo_error_context =
     JObj [(''statusCode'', JInt 200),
           (''body'', JStr (dumps_error ''No log groups found for CodeBuild stage Build''))]"

definition demo_json_loads :: "string \<Rightarrow> error + json" where
  "demo_json_loads encoded =
     (if encoded = demo_repo_body
      then Inr (JObj [(''file_paths'', JList [JStr ''buildspec.yml'', JStr ''src/app.py''])])
      else if encoded = dumps_error ''No log groups found for CodeBuild stage Build''
      then Inr (JObj [(''error'', JStr ''No log groups found for CodeBuild stage Build'')])
      else if encoded = dumps_error ''Failed to retrieve GitHub credentials''
      then Inr (JObj [(''error'', JStr ''Failed to retrieve GitHub credentials'')])
      else if encoded
                = dumps_error ''SSM parameter not found: /pipeline/demo/Source/Fetch/s3-log-group''
      then Inr (JObj [(''error'',
                       JStr ''SSM parameter not found: /pipeline/demo/Source/Fetch/s3-log-group'')])
      else if encoded
                = dumps_error
                    ''Log analysis function execution failed: Unknown service: bedrock-runtime''
      then Inr (JObj [(''error'',
                       JStr ''Log analysis function execution failed: Unknown service: bedrock-runtime'')])
      else Inl (ValueError ''Expecting value''))"

definition quoting_model :: "json \<Rightarrow> json \<Rightarrow> string" where
  "quoting_model error_data available_files =
     CHR 0x20 # CHR 0x22 # ''buildspec.yml'' @ [CHR 0x22, CHR 0x0A]"

definition inventing_model :: "json \<Rightarrow> json \<Rightarrow> string" where
  "inventing_model error_data available_files = ''Dockerfile''"

text \<open>
  The surroundings of two runs of the orchestrator. Both have no secret for the repository
  and a language model that is throttled. In the first the log analysis is the one above;
  in the second its construction fails. The serialiser is \<open>json.dumps\<close> on an error
  dictionary; no other dictionary occurs in these runs.
\<close>

definition no_secret_repo_function :: repo_structure_function where
  "no_secret_repo_function =
     \<lparr> get_github_credentials = None,
       urlparse_path = (\<lambda>url. Inr []),
       get_repo_tree = (\<lambda>owner repo branch token. None),
       get_file_content = (\<lambda>owner repo path token. ''[Unreadable]'') \<rparr>"

definition throttled_agent :: solution_provider_agent where
  "throttled_agent =
     \<lparr> loads = demo_json_loads,
       invoke_model_simple = (\<lambda>error_data available_files. Inl (ClientError ''ThrottlingException'')),
       invoke_model =
         (\<lambda>repo_structure error_context problematic_file file_content.
            Inl (ClientError ''ThrottlingException'')),
       fetch_file_content =
         (\<lambda>filename repo_structure. JStr ''[Unable to fetch file content - credentials error]'') \<rparr>"

definition dumps_error_payload :: "'a payload \<Rightarrow> string" where
  "dumps_error_payload result =
     (case result of Error_payload m \<Rightarrow> dumps_error m | Payload r \<Rightarrow> ''{}'')"

definition demo_runtime :: agent_runtime where
  "demo_runtime =
     \<lparr> get_pipeline_source_branch = (\<lambda>event. Inr (Some ''main'')),
       new_repo_structure_function = Inr no_secret_repo_function,
       new_log_analysis_function = Inr demo_log_function,
       new_solution_provider_agent = Inr throttled_agent,
       dumps_repo_structure = dumps_error_payload,
       dumps_log_analysis = dumps_error_payload \<rparr>"

definition broken_runtime :: agent_runtime where
  "broken_runtime =
     \<lparr> get_pipeline_source_branch = (\<lambda>event. Inr (Some ''main'')),
       new_repo_structure_function = Inr no_secret_repo_function,
       new_log_analysis_function = Inl (ClientError ''Unknown service: bedrock-runtime''),
       new_solution_provider_agent = Inr throttled_agent,
       dumps_repo_structure = dumps_error_payload,
       dumps_log_analysis = dumps_error_payload \<rparr>"

text \<open>
  A repository analysis whose secret holds a token and no URL, and an agent whose model
  names a listed file for which the hosting service sends the content \<open>null\<close>.
\<close>

definition no_url_repo_function :: repo_structure_function where
  "no_url_repo_function =
     \<lparr> get_github_credentials = Some [(''access_token'', ''token'')],
       urlparse_path = (\<lambda>url. Inr []),
       get_repo_tree = (\<lambda>owner repo branch token. None),
       get_file_content = (\<lambda>owner repo path token. ''[Unreadable]'') \<rparr>"

definition null_content_agent :: solution_provider_agent where
  "null_content_agent =
     \<lparr> loads = demo_json_loads,
       invoke_model_simple =
         (\<lambda>error_data available_files. Inr (quoting_model error_data available_files)),
       invoke_model =
         (\<lambda>repo_structure error_context problematic_file file_content.
            Inr ''Fix the build specification''),
       fetch_file_content = (\<lambda>filename repo_structure. JNull) \<rparr>"

section \<open>Properties of the repository structure analysis\<close>

text \<open>
  Claim C7, the part that fails: \<open>requirements.txt\<close> ends in none of the configuration
  extensions and contains none of the configuration names, so it is not a config file.
\<close>

theorem requirements_txt_not_config:
  "\<not> is_config_file ''requirements.txt''"
  by code_simp

text \<open>
  Claim C7, as the code classifies the tree: \<open>requirements.txt\<close> is a build file only,
  \<open>Dockerfile\<close> is a config file and a deployment file, and \<open>src/app.py\<close> is a source
  file only.
\<close>

theorem classification_of_sample_tree:
  "analysis [''src/app.py'', ''requirements.txt'', ''Dockerfile''] =
     \<lparr> config_files = [''Dockerfile''],
       source_files = [''src/app.py''],
       build_files = [''requirements.txt''],
       deployment_files = [''Dockerfile''] \<rparr>"
  by code_simp

text \<open>
  Claim C8 at the URL \<open>https://github.com/octocat/octocat.github.io\<close>: the name has no
  trailing \<open>.git\<close>, and the \<open>.git\<close> inside it is removed all the same.
\<close>

theorem parse_github_url_removes_inner_git:
  "parse_github_url ''/octocat/octocat.github.io'' = (Some ''octocat'', Some ''octocathub.io'')"
  by (simp add: parse_github_url_def str_strip_chars_def strip_where_def str_replace.simps)

section \<open>Properties of the log analysis\<close>

subsection \<open>The assembled bundle\<close>

lemma sorted_drop_map: "sorted (map f xs) \<Longrightarrow> sorted (map f (drop n xs))"
  by (simp add: drop_map [symmetric] sorted_wrt_drop)

lemma filter_drop_length:
  "filter P (drop n xs) = drop (length (filter P (take n xs))) (filter P xs)"
proof -
  have "filter P xs = filter P (take n xs) @ filter P (drop n xs)"
    by (metis append_take_drop_id filter_append)
  then show ?thesis by simp
qed

lemma logs_build_bundle:
  "logs (build_bundle fetched) =
     sort_key timestamp
       (sort_key timestamp (filter (\<lambda>log. log_type log = Event) fetched)
        @ drop (length (filter (\<lambda>log. log_type log = Native) fetched) - 50)
            (sort_key timestamp (filter (\<lambda>log. log_type log = Native) fetched)))"
  by (simp add: build_bundle_def Let_def filter_sort)

lemma totals_build_bundle:
  "total_events (build_bundle fetched) = length (filter (\<lambda>log. log_type log = Event) fetched)"
  "total_native (build_bundle fetched) = length (filter (\<lambda>log. log_type log = Native) fetched)"
  by (simp_all add: build_bundle_def Let_def filter_sort)

lemma filter_drop_sort_none:
  assumes "\<And>x. Q x \<Longrightarrow> \<not> P x"
  shows "filter P (drop n (sort_key f (filter Q xs))) = []"
proof -
  have "set (drop n (sort_key f (filter Q xs))) \<subseteq> set (sort_key f (filter Q xs))"
    by (rule set_drop_subset)
  then have "\<forall>x \<in> set (drop n (sort_key f (filter Q xs))). Q x"
    by auto
  then show ?thesis
    using assms by (simp only: filter_empty_conv) blast
qed

lemma filter_drop_sort_all:
  assumes "\<And>x. Q x \<Longrightarrow> P x"
  shows "filter P (drop n (sort_key f (filter Q xs))) = drop n (sort_key f (filter Q xs))"
proof -
  have "set (drop n (sort_key f (filter Q xs))) \<subseteq> set (sort_key f (filter Q xs))"
    by (rule set_drop_subset)
  then have "\<forall>x \<in> set (drop n (sort_key f (filter Q xs))). Q x"
    by auto
  then show ?thesis
    using assms by (simp only: filter_id_conv) blast
qed

lemma filter_event_drop_native:
  "filter (\<lambda>log. log_type log = Event)
     (drop n (sort_key timestamp (filter (\<lambda>log. log_type log = Native) xs))) = []"
  by (rule filter_drop_sort_none) simp

lemma filter_native_sorted_events:
  "filter (\<lambda>log. log_type log = Native)
     (sort_key timestamp (filter (\<lambda>log. log_type log = Event) xs)) = []"
  using filter_drop_sort_none [of "\<lambda>log. log_type log = Event" "\<lambda>log. log_type log = Native" 0 timestamp xs]
  by simp

lemma filter_native_drop_native:
  "filter (\<lambda>log. log_type log = Native)
     (drop n (sort_key timestamp (filter (\<lambda>log. log_type log = Native) xs)))
     = drop n (sort_key timestamp (filter (\<lambda>log. log_type log = Native) xs))"
  by (rule filter_drop_sort_all) simp

text \<open>
  Claim C1: for every list of fetched entries the bundle holds one entry for each event
  entry and one for each of the last 50 native entries of the list sorted by timestamp, so
  its length is \<open>total_events + min total_native 50\<close>; the event entries of the bundle are
  all the fetched event entries, and its native entries are the last 50 (all of them when
  there are at most 50) of the fetched native entries in timestamp order.
\<close>

theorem bundle_keeps_events_and_last_50_native:
  "length (logs (build_bundle fetched))
     = total_events (build_bundle fetched) + min (total_native (build_bundle fetched)) 50
   \<and> total_events (build_bundle fetched) = length (filter (\<lambda>log. log_type log = Event) fetched)
   \<and> total_native (build_bundle fetched) = length (filter (\<lambda>log. log_type log = Native) fetched)
   \<and> filter (\<lambda>log. log_type log = Event) (logs (build_bundle fetched))
       = sort_key timestamp (filter (\<lambda>log. log_type log = Event) fetched)
   \<and> filter (\<lambda>log. log_type log = Native) (logs (build_bundle fetched))
       = drop (total_native (build_bundle fetched) - 50)
           (sort_key timestamp (filter (\<lambda>log. log_type log = Native) fetched))"
proof -
  let ?E = "sort_key timestamp (filter (\<lambda>log. log_type log = Event) fetched)"
  let ?N = "sort_key timestamp (filter (\<lambda>log. log_type log = Native) fetched)"
  let ?k = "length (filter (\<lambda>log. log_type log = Native) fetched) - 50"
  have len: "length (logs (build_bundle fetched))
     = total_events (build_bundle fetched) + min (total_native (build_bundle fetched)) 50"
    by (simp add: logs_build_bundle totals_build_bundle)
  have ev: "filter (\<lambda>log. log_type log = Event) (logs (build_bundle fetched)) = ?E"
  proof -
    have "filter (\<lambda>log. log_type log = Event) (logs (build_bundle fetched))
            = sort_key timestamp (filter (\<lambda>log. log_type log = Event) (?E @ drop ?k ?N))"
      by (simp only: logs_build_bundle filter_sort)
    also have "filter (\<lambda>log. log_type log = Event) (?E @ drop ?k ?N) = ?E"
      by (simp only: filter_append filter_event_drop_native append_Nil2 filter_sort filter_filter) simp
    also have "sort_key timestamp ?E = ?E"
      by (rule sort_key_id_if_sorted, rule sorted_sort_key)
    finally show ?thesis .
  qed
  have na: "filter (\<lambda>log. log_type log = Native) (logs (build_bundle fetched)) = drop ?k ?N"
  proof -
    have "filter (\<lambda>log. log_type log = Native) (logs (build_bundle fetched))
            = sort_key timestamp (filter (\<lambda>log. log_type log = Native) (?E @ drop ?k ?N))"
      by (simp only: logs_build_bundle filter_sort)
    also have "filter (\<lambda>log. log_type log = Native) (?E @ drop ?k ?N) = drop ?k ?N"
      by (simp only: filter_append filter_native_sorted_events filter_native_drop_native append_Nil)
    also have "sort_key timestamp (drop ?k ?N) = drop ?k ?N"
      by (rule sort_key_id_if_sorted, rule sorted_drop_map, rule sorted_sort_key)
    finally show ?thesis .
  qed
  have na': "filter (\<lambda>log. log_type log = Native) (logs (build_bundle fetched))
       = drop (total_native (build_bundle fetched) - 50) ?N"
    by (simp only: na totals_build_bundle)
  show ?thesis
    by (intro conjI) (rule len totals_build_bundle ev na')+
qed

text \<open>
  Claim C4, as the code orders the bundle: the entries are sorted by timestamp, and the
  entries that share a timestamp \<open>t\<close> are first the event entries with that timestamp, in
  arrival order, and then the kept native entries with that timestamp, in arrival order
  (the native entries cut by the limit of 50 are a prefix of them).
\<close>

theorem bundle_sorted_and_tie_order:
  "sorted (map timestamp (logs (build_bundle fetched)))
   \<and> (\<forall>t. filter (\<lambda>log. timestamp log = t) (logs (build_bundle fetched))
          = filter (\<lambda>log. timestamp log = t \<and> log_type log = Event) fetched
            @ drop (length (filter (\<lambda>log. timestamp log = t)
                      (take (total_native (build_bundle fetched) - 50)
                         (sort_key timestamp (filter (\<lambda>log. log_type log = Native) fetched)))))
                (filter (\<lambda>log. timestamp log = t \<and> log_type log = Native) fetched))"
proof -
  let ?N = "sort_key timestamp (filter (\<lambda>log. log_type log = Native) fetched)"
  let ?k = "length (filter (\<lambda>log. log_type log = Native) fetched) - 50"
  have srt: "sorted (map timestamp (logs (build_bundle fetched)))"
    by (simp only: logs_build_bundle sorted_sort_key)
  have tie: "filter (\<lambda>log. timestamp log = t) (logs (build_bundle fetched))
          = filter (\<lambda>log. timestamp log = t \<and> log_type log = Event) fetched
            @ drop (length (filter (\<lambda>log. timestamp log = t) (take ?k ?N)))
                (filter (\<lambda>log. timestamp log = t \<and> log_type log = Native) fetched)" for t
  proof -
    have "filter (\<lambda>log. timestamp log = t) (logs (build_bundle fetched))
            = filter (\<lambda>log. timestamp log = t)
                (sort_key timestamp (filter (\<lambda>log. log_type log = Event) fetched))
              @ filter (\<lambda>log. timestamp log = t) (drop ?k ?N)"
      by (simp only: logs_build_bundle sort_key_stable filter_append)
    also have "filter (\<lambda>log. timestamp log = t)
                (sort_key timestamp (filter (\<lambda>log. log_type log = Event) fetched))
             = filter (\<lambda>log. timestamp log = t \<and> log_type log = Event) fetched"
      by (simp only: sort_key_stable filter_filter conj_commute)
    also have "filter (\<lambda>log. timestamp log = t) (drop ?k ?N)
             = drop (length (filter (\<lambda>log. timestamp log = t) (take ?k ?N)))
                 (filter (\<lambda>log. timestamp log = t \<and> log_type log = Native) fetched)"
      by (simp only: filter_drop_length [of _ ?k ?N] sort_key_stable filter_filter conj_commute)
    finally show ?thesis .
  qed
  have tie': "filter (\<lambda>log. timestamp log = t) (logs (build_bundle fetched))
          = filter (\<lambda>log. timestamp log = t \<and> log_type log = Event) fetched
            @ drop (length (filter (\<lambda>log. timestamp log = t)
                      (take (total_native (build_bundle fetched) - 50) ?N)))
                (filter (\<lambda>log. timestamp log = t \<and> log_type log = Native) fetched)" for t
    by (simp only: tie totals_build_bundle)
  show ?thesis
    by (intro conjI allI) (rule srt tie')+
qed

subsection \<open>The pagination loops\<close>

lemma native_loop_returns:
  "\<exists>r. get_events_around_failure_loop client g s a b trace tok events = Some r"
proof (induction "101 - length events" arbitrary: events trace tok rule: less_induct)
  case less
  let ?call = "GetLogEvents g s a b (if truthy tok then tok else None)"
  show ?case
  proof (cases "client trace ?call")
    case (LogStreams x)
    then show ?thesis
      by (subst get_events_around_failure_loop.simps) (simp add: Let_def)
  next
    case (Raises e)
    then show ?thesis
      by (subst get_events_around_failure_loop.simps) (simp add: Let_def)
  next
    case (LogEvents page token)
    let ?events' = "events @ map (entry g Native) page"
    show ?thesis
    proof (cases "\<not> truthy token \<or> page = [] \<or> length ?events' > 100")
      case True
      then show ?thesis using LogEvents
        by (subst get_events_around_failure_loop.simps) (auto simp add: Let_def)
    next
      case False
      then have "101 - length ?events' < 101 - length events"
        by (cases page) auto
      then obtain r where
        "get_events_around_failure_loop client g s a b (trace @ [?call]) token ?events' = Some r"
        using less by blast
      then show ?thesis using LogEvents False
        by (subst get_events_around_failure_loop.simps) (auto simp add: Let_def)
    qed
  qed
qed

lemma endless_store_reply:
  "endless_store trace call =
     LogEvents [\<lparr> event_timestamp = 1, event_message = ''started'' \<rparr>] (Some ''next'')"
  by (simp add: endless_store_def)

lemma endless_store_no_result:
  assumes "get_all_events_loop client g s a b trace tok events = Some r"
  shows "client \<noteq> endless_store"
proof (rule get_all_events_loop.raw_induct
         [where P = "\<lambda>client g s a b trace tok events r. client \<noteq> endless_store", OF _ assms],
       goal_cases)
  case (1 loop client g s a b trace tok events r)
  show ?case
  proof
    assume c: "client = endless_store"
    let ?call = "GetLogEvents g s a b (if truthy tok then tok else None)"
    let ?page = "[\<lparr> event_timestamp = 1, event_message = ''started'' \<rparr>]"
    have "loop client g s a b (trace @ [?call]) (Some ''next'') (events @ map (entry g Event) ?page)
            = Some r"
      using 1(2) by (simp add: c endless_store_reply Let_def truthy_def)
    then have "client \<noteq> endless_store"
      by (rule 1(1))
    then show False using c by simp
  qed
qed

text \<open>
  Claim C9 fails for the loop of the event kind: against a store that answers every call
  with a fresh token and a page that is not empty, the loop never returns.
\<close>

theorem event_pagination_counterexample:
  "get_all_events_from_stream endless_store ''events-event-log-group'' ''stream'' 0 60000 [] = None"
proof (cases "get_all_events_from_stream endless_store ''events-event-log-group'' ''stream'' 0 60000 []")
  case None
  then show ?thesis .
next
  case (Some r)
  then have "endless_store \<noteq> endless_store"
    unfolding get_all_events_from_stream_def by (rule endless_store_no_result)
  then show ?thesis by simp
qed


lemma native_loop_LogEvents:
  assumes "client trace (GetLogEvents g s a b (if truthy tok then tok else None)) = LogEvents page token"
  shows "get_events_around_failure_loop client g s a b trace tok events =
     (if \<not> truthy token \<or> page = [] \<or> length (events @ map (entry g Native) page) > 100
      then Some (Inr (events @ map (entry g Native) page),
                 trace @ [GetLogEvents g s a b (if truthy tok then tok else None)])
      else get_events_around_failure_loop client g s a b
             (trace @ [GetLogEvents g s a b (if truthy tok then tok else None)]) token
             (events @ map (entry g Native) page))"
  by (subst get_events_around_failure_loop.simps) (simp add: assms Let_def)

lemma native_loop_no_page:
  assumes "\<forall>page token. client trace (GetLogEvents g s a b (if truthy tok then tok else None))
             \<noteq> LogEvents page token"
  shows "\<exists>e. get_events_around_failure_loop client g s a b trace tok events =
     Some (Inl e, trace @ [GetLogEvents g s a b (if truthy tok then tok else None)])"
  using assms
  by (subst get_events_around_failure_loop.simps)
     (cases "client trace (GetLogEvents g s a b (if truthy tok then tok else None))";
      simp add: Let_def)

lemma native_loop_bound:
  assumes "\<forall>tr call page token. client tr call = LogEvents page token \<longrightarrow> length page \<le> p"
    and "get_events_around_failure_loop client g s a b trace tok events = Some (Inr evs, trace')"
    and "length events \<le> 100"
  shows "length evs \<le> 100 + p"
  using assms(2,3)
proof (induction "101 - length events" arbitrary: events trace tok rule: less_induct)
  case less
  let ?call = "GetLogEvents g s a b (if truthy tok then tok else None)"
  show ?case
  proof (cases "\<exists>page token. client trace ?call = LogEvents page token")
    case False
    then obtain e where "get_events_around_failure_loop client g s a b trace tok events =
        Some (Inl e, trace @ [?call])"
      using native_loop_no_page [of client trace g s a b tok events] by blast
    then show ?thesis using less.prems by simp
  next
    case True
    then obtain page token where reply: "client trace ?call = LogEvents page token"
      by blast
    then have page: "length page \<le> p"
      using assms(1) by blast
    let ?events' = "events @ map (entry g Native) page"
    show ?thesis
    proof (cases "\<not> truthy token \<or> page = [] \<or> length ?events' > 100")
      case True
      then have "evs = ?events'"
        using less.prems(1) native_loop_LogEvents [of client trace g s a b tok page token events] reply by auto
      then show ?thesis using page less.prems(2) by simp
    next
      case False
      then have smaller: "101 - length ?events' < 101 - length events"
        by (cases page) auto
      have next_run: "get_events_around_failure_loop client g s a b (trace @ [?call]) token ?events'
              = Some (Inr evs, trace')"
        using less.prems(1) native_loop_LogEvents [of client trace g s a b tok page token events] reply False by auto
      have "length ?events' \<le> 100"
        using False by simp
      then show ?thesis
        using less.hyps [OF smaller next_run] by blast
    qed
  qed
qed










text \<open>
  Claim C4 fails on ties between the kinds: the native group is listed first, so its entry
  arrives first; the event entry has the same timestamp and stands before it in the bundle.
\<close>

theorem tie_order_counterexample:
  "fetch_log_groups single_event_store 0 3600000 []
      [''/aws/codebuild/demo'', ''demo-event-log-group''] [] =
     Some ([\<lparr>log_group = ''/aws/codebuild/demo'', timestamp = 5,
              message = ''/aws/codebuild/demo'', log_type = Native\<rparr>,
            \<lparr>log_group = ''demo-event-log-group'', timestamp = 5,
              message = ''demo-event-log-group'', log_type = Event\<rparr>],
           [DescribeLogStreams ''/aws/codebuild/demo'',
            GetLogEvents ''/aws/codebuild/demo'' ''stream'' 1800000 3600000 None,
            DescribeLogStreams ''demo-event-log-group'',
            GetLogEvents ''demo-event-log-group'' ''stream'' 0 3600000 None])
   \<and> fetch_logs_in_timeframe single_event_store whole_second_ms 0 []
        [''/aws/codebuild/demo'', ''demo-event-log-group''] (Some 0) (Some 3600000000) =
     Some (\<lparr>logs =
              [\<lparr>log_group = ''demo-event-log-group'', timestamp = 5,
                 message = ''demo-event-log-group'', log_type = Event\<rparr>,
               \<lparr>log_group = ''/aws/codebuild/demo'', timestamp = 5,
                 message = ''/aws/codebuild/demo'', log_type = Native\<rparr>],
             total_events = 1, total_native = 1,
             log_summary = ''Found 1 events and 1 native logs''\<rparr>,
           [DescribeLogStreams ''/aws/codebuild/demo'',
            GetLogEvents ''/aws/codebuild/demo'' ''stream'' 1800000 3600000 None,
            DescribeLogStreams ''demo-event-log-group'',
            GetLogEvents ''demo-event-log-group'' ''stream'' 0 3600000 None])"
  by code_simp

subsection \<open>The limit on native events\<close>

text \<open>
  Claim C5 fails when a page carries the count past 100: the page is kept whole. Here the
  first page holds 101 events and the fetch returns all 101.
\<close>

theorem native_fetch_counterexample:
  "get_events_around_failure big_page_store ''/aws/codebuild/demo'' ''stream'' 0 10 [] =
     Some (Inr (replicate 101 \<lparr>log_group = ''/aws/codebuild/demo'', timestamp = 1,
                  message = ''line'', log_type = Native\<rparr>),
           [GetLogEvents ''/aws/codebuild/demo'' ''stream'' 0 10 None])
   \<and> length (replicate 101 \<lparr>log_group = ''/aws/codebuild/demo'', timestamp = 1,
                  message = ''line'', log_type = Native\<rparr>) = 101"
  by code_simp

text \<open>
  Claim C5, as the code limits the fetch: once a page has brought the number of collected
  events above 100, the loop returns without asking for a further page, even when the
  store announces one; and when no page of the store holds more than \<open>p\<close> events, the
  fetch for one group returns at most \<open>100 + p\<close> events.
\<close>

theorem native_fetch_stops_above_100:
  "(client trace (GetLogEvents g s a b (if truthy tok then tok else None)) = LogEvents page token
      \<and> length events + length page > 100
    \<longrightarrow> get_events_around_failure_loop client g s a b trace tok events =
          Some (Inr (events @ map (entry g Native) page),
                trace @ [GetLogEvents g s a b (if truthy tok then tok else None)]))
   \<and> ((\<forall>tr call page token. client tr call = LogEvents page token \<longrightarrow> length page \<le> p)
      \<and> get_events_around_failure client g s a b trace = Some (Inr evs, trace')
    \<longrightarrow> length evs \<le> 100 + p)"
proof (intro conjI impI)
  assume "client trace (GetLogEvents g s a b (if truthy tok then tok else None)) = LogEvents page token
      \<and> length events + length page > 100"
  then show "get_events_around_failure_loop client g s a b trace tok events =
          Some (Inr (events @ map (entry g Native) page),
                trace @ [GetLogEvents g s a b (if truthy tok then tok else None)])"
    using native_loop_LogEvents [of client trace g s a b tok page token events] by simp
next
  assume h: "(\<forall>tr call page token. client tr call = LogEvents page token \<longrightarrow> length page \<le> p)
      \<and> get_events_around_failure client g s a b trace = Some (Inr evs, trace')"
  then have "get_events_around_failure_loop client g s a b trace None [] = Some (Inr evs, trace')"
    by (simp add: get_events_around_failure_def)
  then show "length evs \<le> 100 + p"
    using h native_loop_bound [of client p g s a b trace None "[]" evs trace'] by simp
qed

lemma sixty_pages:
  "get_events_around_failure sixty_page_store ''/aws/codebuild/demo'' ''stream'' 0 10 [] =
     Some (Inr (replicate 120 \<lparr>log_group = ''/aws/codebuild/demo'', timestamp = 1,
                  message = ''line'', log_type = Native\<rparr>),
           [GetLogEvents ''/aws/codebuild/demo'' ''stream'' 0 10 None,
            GetLogEvents ''/aws/codebuild/demo'' ''stream'' 0 10 (Some ''more'')])"
  by code_simp

text \<open>
  Witness for claim C5: pages of 60 events, each announcing a further page. The second
  page brings the count to 120 and the loop stops.
\<close>

theorem native_fetch_stops_above_100_witness:
  "sixty_page_store [GetLogEvents ''/aws/codebuild/demo'' ''stream'' 0 10 None]
       (GetLogEvents ''/aws/codebuild/demo'' ''stream'' 0 10 (Some ''more''))
     = LogEvents (replicate 60 \<lparr> event_timestamp = 1, event_message = ''line'' \<rparr>) (Some ''more'')
   \<and> get_events_around_failure_loop sixty_page_store ''/aws/codebuild/demo'' ''stream'' 0 10
       [GetLogEvents ''/aws/codebuild/demo'' ''stream'' 0 10 None] (Some ''more'')
       (replicate 60 \<lparr>log_group = ''/aws/codebuild/demo'', timestamp = 1,
                  message = ''line'', log_type = Native\<rparr>)
     = Some (Inr (replicate 60 \<lparr>log_group = ''/aws/codebuild/demo'', timestamp = 1,
                  message = ''line'', log_type = Native\<rparr>
                  @ map (entry ''/aws/codebuild/demo'' Native)
                      (replicate 60 \<lparr> event_timestamp = 1, event_message = ''line'' \<rparr>)),
           [GetLogEvents ''/aws/codebuild/demo'' ''stream'' 0 10 None,
            GetLogEvents ''/aws/codebuild/demo'' ''stream'' 0 10 (Some ''more'')])
   \<and> get_events_around_failure sixty_page_store ''/aws/codebuild/demo'' ''stream'' 0 10 []
     = Some (Inr (replicate 120 \<lparr>log_group = ''/aws/codebuild/demo'', timestamp = 1,
                  message = ''line'', log_type = Native\<rparr>),
           [GetLogEvents ''/aws/codebuild/demo'' ''stream'' 0 10 None,
            GetLogEvents ''/aws/codebuild/demo'' ''stream'' 0 10 (Some ''more'')])
   \<and> length (replicate 120 \<lparr>log_group = ''/aws/codebuild/demo'', timestamp = 1,
                  message = ''line'', log_type = Native\<rparr>) \<le> 100 + 60"
  using native_fetch_stops_above_100
          [of sixty_page_store "[GetLogEvents ''/aws/codebuild/demo'' ''stream'' 0 10 None]"
              "''/aws/codebuild/demo''" "''stream''" 0 10 "Some ''more''"
              "replicate 60 \<lparr> event_timestamp = 1, event_message = ''line'' \<rparr>" "Some ''more''"
              "replicate 60 \<lparr>log_group = ''/aws/codebuild/demo'', timestamp = 1,
                  message = ''line'', log_type = Native\<rparr>"]
        native_fetch_stops_above_100
          [of sixty_page_store "[]" "''/aws/codebuild/demo''" "''stream''" 0 10 None "[]" None "[]"
              60
              "replicate 120 \<lparr>log_group = ''/aws/codebuild/demo'', timestamp = 1,
                  message = ''line'', log_type = Native\<rparr>"
              "[GetLogEvents ''/aws/codebuild/demo'' ''stream'' 0 10 None,
                GetLogEvents ''/aws/codebuild/demo'' ''stream'' 0 10 (Some ''more'')]"]
  by (simp add: sixty_pages sixty_page_store_def truthy_def)

lemma native_loop_calls:
  assumes "get_events_around_failure_loop client g s a b trace tok events = Some (r, trace')"
  shows "length trace' \<le> length trace + 1 + (100 - length events)"
  using assms
proof (induction "101 - length events" arbitrary: events trace tok rule: less_induct)
  case less
  let ?t = "if truthy tok then tok else None"
  let ?call = "GetLogEvents g s a b ?t"
  show ?case
  proof (cases "\<exists>page token. client trace ?call = LogEvents page token")
    case False
    then obtain e where "get_events_around_failure_loop client g s a b trace tok events =
        Some (Inl e, trace @ [?call])"
      using native_loop_no_page [of client trace g s a b tok events] by blast
    then show ?thesis using less.prems by auto
  next
    case True
    then obtain page token where reply: "client trace ?call = LogEvents page token"
      by blast
    let ?events' = "events @ map (entry g Native) page"
    show ?thesis
    proof (cases "\<not> truthy token \<or> page = [] \<or> length ?events' > 100")
      case True
      then have "trace' = trace @ [?call]"
        using less.prems(1) native_loop_LogEvents [of client trace g s a b tok page token events] reply
        by auto
      then show ?thesis by simp
    next
      case False
      then have smaller: "101 - length ?events' < 101 - length events"
        by (cases page) auto
      have next_run: "get_events_around_failure_loop client g s a b (trace @ [?call]) token ?events'
              = Some (r, trace')"
        using less.prems(1) native_loop_LogEvents [of client trace g s a b tok page token events] reply
          False by auto
      have "length trace' \<le> length (trace @ [?call]) + 1 + (100 - length ?events')"
        using less.hyps [OF smaller next_run] .
      then have ih: "length trace' \<le> length trace + 2 + (100 - (length events + length page))"
        by simp
      have pos: "0 < length page"
        using False by simp
      have le: "length events + length page \<le> 100"
        using False by simp
      from ih pos le show ?thesis
        by linarith
    qed
  qed
qed

subsection \<open>Termination of the pagination loops\<close>

lemma event_loop_unfold:
  "get_all_events_loop client g s a b trace tok events =
     (case client trace (GetLogEvents g s a b (if truthy tok then tok else None)) of
        LogEvents page token \<Rightarrow>
          if \<not> truthy token \<or> page = []
          then Some (Inr (events @ map (entry g Event) page),
                     trace @ [GetLogEvents g s a b (if truthy tok then tok else None)])
          else get_all_events_loop client g s a b
                 (trace @ [GetLogEvents g s a b (if truthy tok then tok else None)]) token
                 (events @ map (entry g Event) page)
      | LogStreams streams \<Rightarrow>
          Some (Inl (KeyError ''events''),
                trace @ [GetLogEvents g s a b (if truthy tok then tok else None)])
      | Raises e \<Rightarrow>
          Some (Inl e, trace @ [GetLogEvents g s a b (if truthy tok then tok else None)]))"
  by (subst get_all_events_loop.simps)
     (cases "client trace (GetLogEvents g s a b (if truthy tok then tok else None))";
      simp add: Let_def)

lemma event_loop_ends:
  assumes "ends_pagination (event_loop_reply client g s a b k trace tok)"
  shows "\<exists>r trace'. get_all_events_loop client g s a b trace tok events = Some (r, trace')
           \<and> length trace' \<le> length trace + Suc k"
  using assms
proof (induction k arbitrary: trace tok events)
  case 0
  then show ?case
    by (subst event_loop_unfold)
       (auto simp add: ends_pagination_def split: api_reply.splits)
next
  case (Suc k)
  let ?call = "GetLogEvents g s a b (if truthy tok then tok else None)"
  show ?case
  proof (cases "client trace ?call")
    case (LogStreams streams)
    then show ?thesis by (subst event_loop_unfold) simp
  next
    case (Raises e)
    then show ?thesis by (subst event_loop_unfold) simp
  next
    case (LogEvents page token)
    show ?thesis
    proof (cases "\<not> truthy token \<or> page = []")
      case True
      then show ?thesis using LogEvents by (subst event_loop_unfold) auto
    next
      case False
      then have "ends_pagination (event_loop_reply client g s a b k (trace @ [?call]) token)"
        using Suc.prems LogEvents by (simp add: Let_def)
      from Suc.IH [OF this, of "events @ map (entry g Event) page"] obtain r trace' where
        "get_all_events_loop client g s a b (trace @ [?call]) token
           (events @ map (entry g Event) page) = Some (r, trace')"
        and "length trace' \<le> length (trace @ [?call]) + Suc k"
        by blast
      then show ?thesis using LogEvents False by (subst event_loop_unfold) auto
    qed
  qed
qed

lemma event_loop_result_ends:
  assumes "get_all_events_loop client g s a b trace tok events = Some r"
  shows "\<exists>k. ends_pagination (event_loop_reply client g s a b k trace tok)"
proof (rule get_all_events_loop.raw_induct
         [where P = "\<lambda>client g s a b trace tok events r.
                       \<exists>k. ends_pagination (event_loop_reply client g s a b k trace tok)",
          OF _ assms],
       goal_cases)
  case (1 loop client g s a b trace tok events r)
  let ?call = "GetLogEvents g s a b (if truthy tok then tok else None)"
  show ?case
  proof (cases "ends_pagination (client trace ?call)")
    case True
    then have "ends_pagination (event_loop_reply client g s a b 0 trace tok)"
      by simp
    then show ?thesis by blast
  next
    case False
    then obtain page token where reply: "client trace ?call = LogEvents page token"
      and continues: "truthy token" "page \<noteq> []"
      by (auto simp add: ends_pagination_def split: api_reply.splits)
    then have "loop client g s a b (trace @ [?call]) token (events @ map (entry g Event) page)
                 = Some r"
      using 1(2) by (simp add: Let_def)
    then obtain k where "ends_pagination (event_loop_reply client g s a b k (trace @ [?call]) token)"
      using 1(1) by blast
    then have "ends_pagination (event_loop_reply client g s a b (Suc k) trace tok)"
      using reply continues by (simp add: Let_def)
    then show ?thesis by blast
  qed
qed

text \<open>
  Claim C9, as the loops are bounded: the loop of the native kind returns for every store,
  after at most 101 calls, since each page that does not end it adds an event and the count
  ends it above 100. The loop of the event kind has no bound on the count: it returns, after
  at most \<open>k + 1\<close> calls, when the reply to call \<open>k + 1\<close> of its run is an exception, a
  page without a next token or an empty page, and it never returns when no reply of its run
  is one of these.
\<close>

theorem pagination_termination:
  "(\<exists>r trace'. get_events_around_failure client g s a b trace = Some (r, trace')
        \<and> length trace' \<le> length trace + 101)
   \<and> (ends_pagination (event_loop_reply client g s a b k trace None)
       \<longrightarrow> (\<exists>r trace'. get_all_events_from_stream client g s a b trace = Some (r, trace')
              \<and> length trace' \<le> length trace + Suc k))
   \<and> ((\<forall>j. \<not> ends_pagination (event_loop_reply client g s a b j trace None))
       \<longrightarrow> get_all_events_from_stream client g s a b trace = None)"
proof -
  obtain r trace' where run: "get_events_around_failure_loop client g s a b trace None [] = Some (r, trace')"
    using native_loop_returns [of client g s a b trace None "[]"] by auto
  then have "length trace' \<le> length trace + 101"
    using native_loop_calls [OF run] by simp
  then have native: "\<exists>r trace'. get_events_around_failure client g s a b trace = Some (r, trace')
        \<and> length trace' \<le> length trace + 101"
    using run by (simp add: get_events_around_failure_def)
  have ends: "\<exists>r trace'. get_all_events_from_stream client g s a b trace = Some (r, trace')
              \<and> length trace' \<le> length trace + Suc k"
    if "ends_pagination (event_loop_reply client g s a b k trace None)"
    unfolding get_all_events_from_stream_def using that by (rule event_loop_ends)
  have never: "get_all_events_from_stream client g s a b trace = None"
    if "\<forall>j. \<not> ends_pagination (event_loop_reply client g s a b j trace None)"
  proof (cases "get_all_events_from_stream client g s a b trace")
    case None
    then show ?thesis .
  next
    case (Some r)
    then have "\<exists>j. ends_pagination (event_loop_reply client g s a b j trace None)"
      unfolding get_all_events_from_stream_def by (rule event_loop_result_ends)
    then show ?thesis using that by blast
  qed
  show ?thesis
    using native ends never by blast
qed

lemma endless_store_never_ends:
  "\<not> ends_pagination (event_loop_reply endless_store g s a b k trace tok)"
  by (induction k arbitrary: trace tok)
     (simp_all add: endless_store_def ends_pagination_def truthy_def Let_def)

lemma three_pages:
  "get_all_events_from_stream three_page_store ''demo-event-log-group'' ''stream'' 0 3600000 [] =
     Some (Inr [\<lparr>log_group = ''demo-event-log-group'', timestamp = 1, message = ''started'',
                  log_type = Event\<rparr>,
                \<lparr>log_group = ''demo-event-log-group'', timestamp = 2, message = ''running'',
                  log_type = Event\<rparr>,
                \<lparr>log_group = ''demo-event-log-group'', timestamp = 3, message = ''failed'',
                  log_type = Event\<rparr>],
           [GetLogEvents ''demo-event-log-group'' ''stream'' 0 3600000 None,
            GetLogEvents ''demo-event-log-group'' ''stream'' 0 3600000 (Some ''page-2''),
            GetLogEvents ''demo-event-log-group'' ''stream'' 0 3600000 (Some ''page-3'')])"
  by code_simp

lemma three_pages_replies:
  "\<not> ends_pagination (event_loop_reply three_page_store ''demo-event-log-group'' ''stream'' 0 3600000 0 [] None)"
  "\<not> ends_pagination (event_loop_reply three_page_store ''demo-event-log-group'' ''stream'' 0 3600000 1 [] None)"
  "ends_pagination (event_loop_reply three_page_store ''demo-event-log-group'' ''stream'' 0 3600000 2 [] None)"
  by code_simp+

text \<open>
  Witness for claim C9: against the store of three pages the loop of the event kind goes
  round twice and returns at the third reply; against the store that always announces a
  further page no reply ends it.
\<close>

theorem pagination_termination_witness:
  "(\<exists>r trace'. get_events_around_failure three_page_store ''/aws/codebuild/demo'' ''stream'' 0 3600000 []
                  = Some (r, trace') \<and> length trace' \<le> length ([] :: api_call list) + 101)
   \<and> \<not> ends_pagination
         (event_loop_reply three_page_store ''demo-event-log-group'' ''stream'' 0 3600000 1 [] None)
   \<and> ends_pagination
         (event_loop_reply three_page_store ''demo-event-log-group'' ''stream'' 0 3600000 2 [] None)
   \<and> (\<exists>r trace'. get_all_events_from_stream three_page_store ''demo-event-log-group'' ''stream''
                    0 3600000 [] = Some (r, trace')
          \<and> length trace' \<le> length ([] :: api_call list) + Suc 2)
   \<and> (\<forall>j. \<not> ends_pagination
              (event_loop_reply endless_store ''demo-event-log-group'' ''stream'' 0 3600000 j [] None))
   \<and> get_all_events_from_stream endless_store ''demo-event-log-group'' ''stream'' 0 3600000 [] = None"
  using pagination_termination
          [of three_page_store "''/aws/codebuild/demo''" "''stream''" 0 3600000 "[]" 2]
        pagination_termination
          [of three_page_store "''demo-event-log-group''" "''stream''" 0 3600000 "[]" 2]
        pagination_termination
          [of endless_store "''demo-event-log-group''" "''stream''" 0 3600000 "[]" 0]
        three_pages_replies endless_store_never_ends
  by blast

subsection \<open>Log groups from the parameter store\<close>

lemma read_params_length:
  "read_log_group_params ssm paths acc = Inr gs \<Longrightarrow> length gs \<le> length acc + length paths \<and> length acc \<le> length gs"
proof (induction paths arbitrary: acc)
  case Nil
  then show ?case by simp
next
  case (Cons p ps)
  then show ?case
    by (cases "ssm p") (fastforce simp add: Let_def split: if_splits)+
qed

text \<open>
  Claim C6, as the code resolves log groups: for the CodeBuild provider, when both
  parameters exist and neither value is blank, the result is the two stripped values, the
  event one first; for any other provider a result has exactly one entry; and a result is
  never empty (the function raises instead) and never has more than two entries.
\<close>

theorem log_group_resolution:
  "(provider ev = Some ''CodeBuild'' \<and> truthy (stage ev) \<and> truthy (action ev)
      \<and> ssm (''/pipeline/'' @ name @ ''/'' @ format_value (stage ev) @ ''/''
               @ format_value (action ev) @ ''/codebuild-event-log-group'') = Parameter v1
      \<and> ssm (''/pipeline/'' @ name @ ''/'' @ format_value (stage ev) @ ''/''
               @ format_value (action ev) @ ''/codebuild-native-log-group'') = Parameter v2
      \<and> str_strip v1 \<noteq> [] \<and> str_strip v2 \<noteq> []
    \<longrightarrow> get_log_groups_from_ssm ssm name ev = Inr [str_strip v1, str_strip v2])
   \<and> (provider ev \<noteq> Some ''CodeBuild'' \<and> get_log_groups_from_ssm ssm name ev = Inr gs
    \<longrightarrow> length gs = 1)
   \<and> (get_log_groups_from_ssm ssm name ev = Inr gs \<longrightarrow> gs \<noteq> [] \<and> length gs \<le> 2)"
proof -
  have both: "get_log_groups_from_ssm ssm name ev = Inr [str_strip v1, str_strip v2]"
    if h: "provider ev = Some ''CodeBuild'' \<and> truthy (stage ev) \<and> truthy (action ev)
      \<and> ssm (''/pipeline/'' @ name @ ''/'' @ format_value (stage ev) @ ''/''
               @ format_value (action ev) @ ''/codebuild-event-log-group'') = Parameter v1
      \<and> ssm (''/pipeline/'' @ name @ ''/'' @ format_value (stage ev) @ ''/''
               @ format_value (action ev) @ ''/codebuild-native-log-group'') = Parameter v2
      \<and> str_strip v1 \<noteq> [] \<and> str_strip v2 \<noteq> []"
  proof -
    from h have "truthy (provider ev)"
      by (simp add: truthy_def)
    then show ?thesis
      using h by (simp add: get_log_groups_from_ssm_def Let_def)
  qed
  have other: "length gs = 1"
    if h: "provider ev \<noteq> Some ''CodeBuild'' \<and> get_log_groups_from_ssm ssm name ev = Inr gs"
  proof -
    from h obtain path where "read_log_group_params ssm [path] [] = Inr gs" and "gs \<noteq> []"
      by (auto simp add: get_log_groups_from_ssm_def Let_def simp del: read_log_group_params.simps
               split: if_splits sum.splits)
    then show ?thesis
      using read_params_length [of ssm "[path]" "[]" gs] by (cases gs) auto
  qed
  have never_empty: "gs \<noteq> [] \<and> length gs \<le> 2"
    if h: "get_log_groups_from_ssm ssm name ev = Inr gs"
  proof -
    from h obtain paths where "read_log_group_params ssm paths [] = Inr gs"
      and "length paths \<le> 2" and "gs \<noteq> []"
      by (auto simp add: get_log_groups_from_ssm_def Let_def simp del: read_log_group_params.simps
               split: if_splits sum.splits)
    then show ?thesis
      using read_params_length [of ssm paths "[]" gs] by auto
  qed
  show ?thesis
    using both other never_empty by blast
qed

text \<open>
  Claim C6 fails when a parameter exists and its value is blank: the value is skipped, and
  the CodeBuild failure resolves to one log group.
\<close>

theorem log_group_resolution_counterexample:
  "provider codebuild_failure = Some ''CodeBuild''
   \<and> blank_native_ssm ''/pipeline/demo/Build/Compile/codebuild-event-log-group''
       = Parameter ''demo-event-log-group''
   \<and> blank_native_ssm ''/pipeline/demo/Build/Compile/codebuild-native-log-group''
       = Parameter '' ''
   \<and> get_log_groups_from_ssm blank_native_ssm ''demo'' codebuild_failure
       = Inr [''demo-event-log-group'']"
  by code_simp

lemma resolve_codebuild:
  "get_log_groups_from_ssm demo_ssm ''demo'' codebuild_failure
     = Inr [''demo-event-log-group'', ''/aws/codebuild/demo'']"
  by code_simp

lemma resolve_s3:
  "get_log_groups_from_ssm demo_ssm ''demo'' s3_failure = Inr [''demo-s3-event-log-group'']"
  by code_simp

lemma strip_demo:
  "str_strip ''demo-event-log-group'' = ''demo-event-log-group''"
  "str_strip '' /aws/codebuild/demo '' = ''/aws/codebuild/demo''"
  by code_simp+

text \<open>
  Witness for claim C6: the CodeBuild failure resolves to two log groups and the S3 failure
  to one.
\<close>

theorem log_group_resolution_witness:
  "provider codebuild_failure = Some ''CodeBuild''
   \<and> truthy (stage codebuild_failure) \<and> truthy (action codebuild_failure)
   \<and> demo_ssm ''/pipeline/demo/Build/Compile/codebuild-event-log-group''
       = Parameter ''demo-event-log-group''
   \<and> demo_ssm ''/pipeline/demo/Build/Compile/codebuild-native-log-group''
       = Parameter '' /aws/codebuild/demo ''
   \<and> get_log_groups_from_ssm demo_ssm ''demo'' codebuild_failure
       = Inr [str_strip ''demo-event-log-group'', str_strip '' /aws/codebuild/demo '']
   \<and> provider s3_failure \<noteq> Some ''CodeBuild''
   \<and> get_log_groups_from_ssm demo_ssm ''demo'' s3_failure = Inr [''demo-s3-event-log-group'']
   \<and> length [''demo-s3-event-log-group''] = 1
   \<and> [''demo-event-log-group'', ''/aws/codebuild/demo''] \<noteq> []
   \<and> length [''demo-event-log-group'', ''/aws/codebuild/demo''] \<le> 2"
proof -
  have inputs:
    "provider codebuild_failure = Some ''CodeBuild''"
    "truthy (stage codebuild_failure)" "truthy (action codebuild_failure)"
    "demo_ssm ''/pipeline/demo/Build/Compile/codebuild-event-log-group''
       = Parameter ''demo-event-log-group''"
    "demo_ssm ''/pipeline/demo/Build/Compile/codebuild-native-log-group''
       = Parameter '' /aws/codebuild/demo ''"
    "provider s3_failure \<noteq> Some ''CodeBuild''"
    by code_simp+
  show ?thesis
    using log_group_resolution
            [of codebuild_failure demo_ssm "''demo''" "''demo-event-log-group''"
                "'' /aws/codebuild/demo ''" "[''demo-event-log-group'', ''/aws/codebuild/demo'']"]
          log_group_resolution
            [of s3_failure demo_ssm "''demo''" "[]" "[]" "[''demo-s3-event-log-group'']"]
    by (simp add: resolve_codebuild resolve_s3 strip_demo inputs)
qed

section \<open>Properties of the suspect file identification\<close>




lemma identify_inventing:
  "identify_problematic_file demo_json_loads inventing_model demo_error_context demo_repo_structure
     = None"
  by code_simp


section \<open>Properties of the supervisor\<close>

text \<open>
  Claim C10, as the code has it. When the branch lookup raises nothing and the log stage
  returns, the final response is the aggregate, whose status is \<open>success\<close>, whatever the
  three stage responses hold. The failures of a stage take three shapes, none of which is
  seen by the orchestrator: an exception inside \<open>analyze_repository_structure\<close> or
  \<open>analyze_logs\<close>, and the exception of the length of a fetched content inside
  \<open>_generate_solution\<close>, is an error dictionary in a response with status code 200; an
  exception of constructing the object of a stage is an error dictionary in a response with
  status code 500; an exception of the call of the language model for the solution is the
  string \<open>Error generating response: ...\<close>, not an error dictionary, in a response with
  status code 200.
\<close>

theorem stage_failures_keep_status_success:
  "(get_pipeline_source_branch runtime (Some event) = Inr branch_name
      \<and> handle_log_analysis (new_log_analysis_function runtime) (extract_error_info event) event
          = Some analyzed_logs
    \<longrightarrow> orchestrate_analysis runtime (Some event)
          = Some (aggregate_response (extract_error_info event)
                    (handle_solution_provider (new_solution_provider_agent runtime)
                       (response_json (dumps_repo_structure runtime)
                          (handle_repo_structure (new_repo_structure_function runtime)
                             branch_name))
                       (response_json (dumps_log_analysis runtime) analyzed_logs)))
        \<and> status (aggregate_response (extract_error_info event)
                    (handle_solution_provider (new_solution_provider_agent runtime)
                       (response_json (dumps_repo_structure runtime)
                          (handle_repo_structure (new_repo_structure_function runtime)
                             branch_name))
                       (response_json (dumps_log_analysis runtime) analyzed_logs)))
          = ''success'')
   \<and> (repository_analysis_body repo_function branch = Inl repo_error
    \<longrightarrow> handle_repo_structure (Inr repo_function) branch
          = \<lparr> statusCode = 200, body = Error_payload (str_of_error repo_error) \<rparr>)
   \<and> handle_repo_structure (Inl repo_init_error) branch
        = \<lparr> statusCode = 500,
            body = Error_payload (''Repo structure function execution failed: ''
                                   @ str_of_error repo_init_error) \<rparr>
   \<and> (get_log_groups_from_ssm (ssm_service log_function) (ei_pipeline_name error_info)
          failure = Inl log_error
    \<longrightarrow> handle_log_analysis (Inr log_function) error_info failure
          = Some \<lparr> statusCode = 200, body = Error_payload (str_of_error log_error) \<rparr>)
   \<and> handle_log_analysis (Inl log_init_error) error_info failure
        = Some \<lparr> statusCode = 500,
                 body = Error_payload (''Log analysis function execution failed: ''
                                        @ str_of_error log_init_error) \<rparr>
   \<and> (problematic_file
          = identify_problematic_file (loads agent) (invoke_bedrock_simple agent)
              error_context repo_structure
      \<and> truthy problematic_file
      \<and> py_len (fetch_file_content agent (format_value problematic_file) repo_structure)
          = Inl length_error
    \<longrightarrow> handle_solution_provider (Inr agent) repo_structure error_context
          = \<lparr> statusCode = 200, body = Error_payload ''Failed to generate solution'' \<rparr>)
   \<and> (suspect
          = identify_problematic_file (loads model_agent) (invoke_bedrock_simple model_agent)
              log_response repo_response
      \<and> file_content
          = (if truthy suspect
             then fetch_file_content model_agent (format_value suspect) repo_response
             else JStr [])
      \<and> py_len file_content = Inr n
      \<and> invoke_model model_agent repo_response log_response suspect file_content
          = Inl model_error
    \<longrightarrow> handle_solution_provider (Inr model_agent) repo_response log_response
          = \<lparr> statusCode = 200,
              body = Payload (''Error generating response: '' @ str_of_error model_error) \<rparr>)
   \<and> handle_solution_provider (Inl agent_init_error) repo_structure error_context
        = \<lparr> statusCode = 500,
            body = Error_payload (''Solution provider function execution failed: ''
                                   @ str_of_error agent_init_error) \<rparr>"
proof -
  have run: "orchestrate_analysis runtime (Some event)
          = Some (aggregate_response (extract_error_info event)
                    (handle_solution_provider (new_solution_provider_agent runtime)
                       (response_json (dumps_repo_structure runtime)
                          (handle_repo_structure (new_repo_structure_function runtime)
                             branch_name))
                       (response_json (dumps_log_analysis runtime) analyzed_logs)))"
    if "get_pipeline_source_branch runtime (Some event) = Inr branch_name"
      and "handle_log_analysis (new_log_analysis_function runtime) (extract_error_info event)
             event = Some analyzed_logs"
    using that by (simp add: orchestrate_analysis_def Let_def)
  have success: "status (aggregate_response (extract_error_info event) solution) = ''success''"
    for solution :: "string stage_response"
    by (simp add: aggregate_response_def)
  have repo: "handle_repo_structure (Inr repo_function) branch
          = \<lparr> statusCode = 200, body = Error_payload (str_of_error repo_error) \<rparr>"
    if "repository_analysis_body repo_function branch = Inl repo_error"
    using that by (simp add: handle_repo_structure_def analyze_repository_structure_def)
  have repo_init: "handle_repo_structure (Inl repo_init_error) branch
        = \<lparr> statusCode = 500,
            body = Error_payload (''Repo structure function execution failed: ''
                                   @ str_of_error repo_init_error) \<rparr>"
    by (simp add: handle_repo_structure_def)
  have logs: "handle_log_analysis (Inr log_function) error_info failure
          = Some \<lparr> statusCode = 200, body = Error_payload (str_of_error log_error) \<rparr>"
    if "get_log_groups_from_ssm (ssm_service log_function) (ei_pipeline_name error_info)
          failure = Inl log_error"
    using that by (simp add: handle_log_analysis_def analyze_logs_def Let_def split: prod.splits)
  have logs_init: "handle_log_analysis (Inl log_init_error) error_info failure
        = Some \<lparr> statusCode = 500,
                 body = Error_payload (''Log analysis function execution failed: ''
                                        @ str_of_error log_init_error) \<rparr>"
    by (simp add: handle_log_analysis_def)
  have content: "handle_solution_provider (Inr agent) repo_structure error_context
          = \<lparr> statusCode = 200, body = Error_payload ''Failed to generate solution'' \<rparr>"
    if "problematic_file
          = identify_problematic_file (loads agent) (invoke_bedrock_simple agent)
              error_context repo_structure"
      and "truthy problematic_file"
      and "py_len (fetch_file_content agent (format_value problematic_file) repo_structure)
          = Inl length_error"
    using that by (simp add: handle_solution_provider_def generate_solution_def Let_def)
  have model: "handle_solution_provider (Inr model_agent) repo_response log_response
          = \<lparr> statusCode = 200,
              body = Payload (''Error generating response: '' @ str_of_error model_error) \<rparr>"
    if "suspect
          = identify_problematic_file (loads model_agent) (invoke_bedrock_simple model_agent)
              log_response repo_response"
      and "file_content
          = (if truthy suspect
             then fetch_file_content model_agent (format_value suspect) repo_response
             else JStr [])"
      and "py_len file_content = Inr n"
      and "invoke_model model_agent repo_response log_response suspect file_content
          = Inl model_error"
    using that
    by (simp add: handle_solution_provider_def generate_solution_def invoke_bedrock_def Let_def
             split: if_splits)
  have agent_init: "handle_solution_provider (Inl agent_init_error) repo_structure error_context
        = \<lparr> statusCode = 500,
            body = Error_payload (''Solution provider function execution failed: ''
                                   @ str_of_error agent_init_error) \<rparr>"
    by (simp add: handle_solution_provider_def)
  show ?thesis
    using run success repo repo_init logs logs_init content model agent_init by blast
qed

text \<open>
  Witness for claim C10, on a run in which the repository stage finds no secret, the
  parameter of the log group is missing and the language model is throttled, on a
  repository analysis whose secret has no URL, and on an agent that receives the content
  \<open>null\<close>.
\<close>

theorem stage_failures_keep_status_success_witness:
  "handle_repo_structure (new_repo_structure_function demo_runtime) (Some ''main'')
     = \<lparr> statusCode = 200, body = Error_payload ''Failed to retrieve GitHub credentials'' \<rparr>
   \<and> handle_log_analysis (new_log_analysis_function demo_runtime)
         (extract_error_info s3_failure) s3_failure
     = Some \<lparr> statusCode = 200,
              body = Error_payload
                ''SSM parameter not found: /pipeline/demo/Source/Fetch/s3-log-group'' \<rparr>
   \<and> orchestrate_analysis demo_runtime (Some s3_failure)
     = Some (aggregate_response (extract_error_info s3_failure)
               \<lparr> statusCode = 200,
                 body = Payload ''Error generating response: ThrottlingException'' \<rparr>)
   \<and> status (aggregate_response (extract_error_info s3_failure)
               \<lparr> statusCode = 200,
                 body = Payload ''Error generating response: ThrottlingException'' \<rparr>)
     = ''success''
   \<and> handle_repo_structure (Inr no_url_repo_function) (Some ''main'')
     = \<lparr> statusCode = 200,
         body = Error_payload
                  (''a bytes-like object is required, not '' @ CHR 0x27 # ''str''
                     @ [CHR 0x27]) \<rparr>
   \<and> handle_solution_provider (Inr null_content_agent) demo_repo_structure demo_error_context
     = \<lparr> statusCode = 200, body = Error_payload ''Failed to generate solution'' \<rparr>"
proof -
  have branch: "get_pipeline_source_branch demo_runtime (Some s3_failure) = Inr (Some ''main'')"
    by code_simp
  have log_stage: "handle_log_analysis (new_log_analysis_function demo_runtime)
         (extract_error_info s3_failure) s3_failure
     = Some \<lparr> statusCode = 200,
              body = Error_payload
                ''SSM parameter not found: /pipeline/demo/Source/Fetch/s3-log-group'' \<rparr>"
    by code_simp
  have repo_stage: "handle_repo_structure (new_repo_structure_function demo_runtime)
         (Some ''main'')
     = \<lparr> statusCode = 200, body = Error_payload ''Failed to retrieve GitHub credentials'' \<rparr>"
    by code_simp
  have solution_stage: "handle_solution_provider (new_solution_provider_agent demo_runtime)
         (response_json (dumps_repo_structure demo_runtime)
            (\<lparr> statusCode = 200,
               body = Error_payload ''Failed to retrieve GitHub credentials'' \<rparr>
               :: repo_analysis stage_response))
         (response_json (dumps_log_analysis demo_runtime)
            (\<lparr> statusCode = 200,
               body = Error_payload
                 ''SSM parameter not found: /pipeline/demo/Source/Fetch/s3-log-group'' \<rparr>
               :: log_analysis stage_response))
     = \<lparr> statusCode = 200,
         body = Payload ''Error generating response: ThrottlingException'' \<rparr>"
    by code_simp
  have no_url: "repository_analysis_body no_url_repo_function (Some ''main'')
     = Inl (TypeError (''a bytes-like object is required, not '' @ CHR 0x27 # ''str''
                        @ [CHR 0x27]))"
    by code_simp
  have log_groups: "get_log_groups_from_ssm (ssm_service demo_log_function)
       (ei_pipeline_name (extract_error_info s3_failure)) s3_failure
     = Inl (ValueError ''SSM parameter not found: /pipeline/demo/Source/Fetch/s3-log-group'')"
    by code_simp
  have suspect: "Some ''buildspec.yml''
     = identify_problematic_file (loads null_content_agent)
         (invoke_bedrock_simple null_content_agent) demo_error_context demo_repo_structure"
    by code_simp
  have is_truthy: "truthy (Some ''buildspec.yml'')"
    by code_simp
  have null_content: "py_len (fetch_file_content null_content_agent
         (format_value (Some ''buildspec.yml'')) demo_repo_structure)
     = Inl (TypeError ''object of type NoneType has no len()'')"
    by code_simp
  have no_suspect: "None
     = identify_problematic_file (loads throttled_agent) (invoke_bedrock_simple throttled_agent)
         demo_error_context demo_repo_structure"
    by code_simp
  have no_content: "JStr []
     = (if truthy None
        then fetch_file_content throttled_agent (format_value None) demo_repo_structure
        else JStr [])"
    by code_simp
  have empty_length: "py_len (JStr []) = Inr 0"
    by simp
  have throttled: "invoke_model throttled_agent demo_repo_structure demo_error_context None
         (JStr []) = Inl (ClientError ''ThrottlingException'')"
    by code_simp
  note facts =
    stage_failures_keep_status_success
      [where runtime = demo_runtime and event = s3_failure and branch_name = "Some ''main''"
         and analyzed_logs = "\<lparr> statusCode = 200,
              body = Error_payload
                ''SSM parameter not found: /pipeline/demo/Source/Fetch/s3-log-group'' \<rparr>"
         and repo_function = no_url_repo_function and branch = "Some ''main''"
         and repo_error = "TypeError (''a bytes-like object is required, not ''
                             @ CHR 0x27 # ''str'' @ [CHR 0x27])"
         and log_function = demo_log_function
         and error_info = "extract_error_info s3_failure" and failure = s3_failure
         and log_error = "ValueError
                ''SSM parameter not found: /pipeline/demo/Source/Fetch/s3-log-group''"
         and problematic_file = "Some ''buildspec.yml''" and agent = null_content_agent
         and error_context = demo_error_context and repo_structure = demo_repo_structure
         and length_error = "TypeError ''object of type NoneType has no len()''"
         and suspect = None and model_agent = throttled_agent
         and log_response = demo_error_context and repo_response = demo_repo_structure
         and file_content = "JStr []" and n = 0
         and model_error = "ClientError ''ThrottlingException''"]
  from facts branch log_stage
  have run: "orchestrate_analysis demo_runtime (Some s3_failure)
          = Some (aggregate_response (extract_error_info s3_failure)
                    (handle_solution_provider (new_solution_provider_agent demo_runtime)
                       (response_json (dumps_repo_structure demo_runtime)
                          (handle_repo_structure (new_repo_structure_function demo_runtime)
                             (Some ''main'')))
                       (response_json (dumps_log_analysis demo_runtime)
                          \<lparr> statusCode = 200,
                            body = Error_payload
                              ''SSM parameter not found: /pipeline/demo/Source/Fetch/s3-log-group'' \<rparr>)))"
    by blast
  from facts no_url
  have url: "handle_repo_structure (Inr no_url_repo_function) (Some ''main'')
     = \<lparr> statusCode = 200,
         body = Error_payload
                  (str_of_error (TypeError (''a bytes-like object is required, not ''
                     @ CHR 0x27 # ''str'' @ [CHR 0x27]))) \<rparr>"
    by blast
  from facts suspect is_truthy null_content
  have content: "handle_solution_provider (Inr null_content_agent) demo_repo_structure
         demo_error_context
     = \<lparr> statusCode = 200, body = Error_payload ''Failed to generate solution'' \<rparr>"
    by blast
  have success: "status (aggregate_response (extract_error_info s3_failure)
               (\<lparr> statusCode = 200,
                  body = Payload ''Error generating response: ThrottlingException'' \<rparr>
                  :: string stage_response))
     = ''success''"
    by (simp add: aggregate_response_def)
  show ?thesis
    using run url content success repo_stage log_stage solution_stage by simp
qed

text \<open>
  Refutation of claim C10 as stated: when the construction of the log analysis fails, the
  failure of the log stage is in a response with status code 500, and the failure of the
  language model is a string, not an error dictionary, in the response of the solution
  stage; the status of the final response is \<open>success\<close>.
\<close>

theorem stage_failure_counterexample:
  "handle_log_analysis (new_log_analysis_function broken_runtime)
       (extract_error_info s3_failure) s3_failure
     = Some \<lparr> statusCode = 500,
              body = Error_payload
                ''Log analysis function execution failed: Unknown service: bedrock-runtime'' \<rparr>
   \<and> orchestrate_analysis broken_runtime (Some s3_failure)
     = Some \<lparr> status = ''success'', pipeline_info = Some (''demo'', ''Source''),
              solution_recommendations =
                Some \<lparr> statusCode = 200,
                       body = Payload ''Error generating response: ThrottlingException'' \<rparr>,
              response_message = None \<rparr>"
  by code_simp

end
